theory Spec2Isabelle
  imports Main "HOL-Library.AList"
begin

section \<open>Host values\<close>

text \<open>
  The binding receives its grammar as a value of the host language and reads it through
  the V8 interface. The values modelled are plain data: the primitives, arrays (a hole is
  an element \<open>JsUndefined\<close>) and objects whose own enumerable properties are listed in
  the order in which the engine enumerates them. A string is the byte sequence of its
  UTF-8 encoding. \<open>JsNumber n\<close> is the number with the integer value \<open>n\<close>.
\<close>

datatype js_value =
    JsUndefined
  | JsNull
  | JsBoolean bool
  | JsNumber int
  | JsString string
  | JsArray "js_value list"
  | JsObject "(string \<times> js_value) list"

text \<open>\<^verbatim>\<open>Value::IsObject\<close>, \<^verbatim>\<open>IsString\<close>, \<^verbatim>\<open>IsArray\<close>, \<^verbatim>\<open>IsUndefined\<close>. An array is an object.\<close>

fun IsObject :: "js_value \<Rightarrow> bool" where
  "IsObject (JsObject props) = True"
| "IsObject (JsArray elems) = True"
| "IsObject v = False"

fun IsString :: "js_value \<Rightarrow> bool" where
  "IsString (JsString text) = True"
| "IsString v = False"

fun IsArray :: "js_value \<Rightarrow> bool" where
  "IsArray (JsArray elems) = True"
| "IsArray v = False"

fun IsUndefined :: "js_value \<Rightarrow> bool" where
  "IsUndefined JsUndefined = True"
| "IsUndefined v = False"

text \<open>
  \<^verbatim>\<open>Object::Get\<close> with a value as key. An object answers a string key with its own
  property of that name, an array answers a number key with the element at that index.
  Every other lookup gives \<open>undefined\<close>: the names this program asks an object for
  (\<open>type\<close>, \<open>members\<close>, \<open>value\<close>, \<open>rule\<close>, \<open>name\<close>, \<open>rules\<close>, \<open>ubiquitous\<close>) are
  neither an index nor \<open>length\<close>, so an array has no property under any of them.
\<close>

fun Get :: "js_value \<Rightarrow> js_value \<Rightarrow> js_value" where
  "Get (JsObject props) (JsString key) =
     (case map_of props key of Some v \<Rightarrow> v | None \<Rightarrow> JsUndefined)"
| "Get (JsArray elems) (JsNumber i) =
     (if 0 \<le> i \<and> i < int (length elems) then elems ! nat i else JsUndefined)"
| "Get obj key = JsUndefined"

text \<open>\<^verbatim>\<open>ObjectGet<T>(object, key)\<close>: the cast to \<open>T\<close> checks nothing.\<close>

definition ObjectGet :: "js_value \<Rightarrow> string \<Rightarrow> js_value" where
  "ObjectGet object key = Get object (JsString key)"

text \<open>
  \<^verbatim>\<open>Object::GetOwnPropertyNames\<close>: the own enumerable property names in enumeration
  order; the indices of an array are enumerated as numbers.
\<close>

fun GetOwnPropertyNames :: "js_value \<Rightarrow> js_value list" where
  "GetOwnPropertyNames (JsObject props) = map (\<lambda>p. JsString (fst p)) props"
| "GetOwnPropertyNames (JsArray elems) = map (\<lambda>i. JsNumber (int i)) [0..<length elems]"
| "GetOwnPropertyNames v = []"

subsection \<open>Exceptions\<close>

text \<open>
  \<^verbatim>\<open>NanThrowTypeError\<close> and \<^verbatim>\<open>NanThrowError\<close> schedule an exception in the isolate and
  return: the C++ code goes on running. The isolate is modelled by the exceptions
  scheduled so far, oldest first. A later exception replaces the scheduled one, so the
  caller of the binding is thrown the last of them (\<open>surfaced\<close>). An error object has a
  kind, a message and the properties set on it: \<^verbatim>\<open>NanError\<close> makes an \<open>Error\<close> without
  properties, \<^verbatim>\<open>Object::Set\<close> adds one.
\<close>

datatype error_kind = TypeError | Error

datatype js_error = JsError error_kind string "(string \<times> js_value) list"

type_synonym isolate = "js_error list"

definition NanThrowTypeError :: "string \<Rightarrow> isolate \<Rightarrow> isolate" where
  "NanThrowTypeError msg s = s @ [JsError TypeError msg []]"

definition NanThrowError :: "js_error \<Rightarrow> isolate \<Rightarrow> isolate" where
  "NanThrowError e s = s @ [e]"

definition NanError :: "string \<Rightarrow> js_error" where
  "NanError msg = JsError Error msg []"

fun SetProperty :: "js_error \<Rightarrow> string \<Rightarrow> js_value \<Rightarrow> js_error" where
  "SetProperty (JsError k msg props) key v = JsError k msg (AList.update key v props)"

fun error_properties :: "js_error \<Rightarrow> (string \<times> js_value) list" where
  "error_properties (JsError k msg props) = props"

definition surfaced :: "isolate \<Rightarrow> js_error option" where
  "surfaced s = (if s = [] then None else Some (last s))"

text \<open>
  A call either returns, or it leaves defined behaviour: the code calls a method of
  \<^verbatim>\<open>v8::Array\<close> or \<^verbatim>\<open>v8::Object\<close> through a handle that an unchecked cast made from a
  value of another kind.
\<close>

datatype 'a outcome = Returned 'a | Undefined_Behaviour

section \<open>Rules and grammars\<close>

text \<open>
  Modelled from the spec: the rule nodes and the grammar of \<^verbatim>\<open>tree_sitter/compiler.h\<close>,
  which is not among the sources. The constructors stand for the functions \<^verbatim>\<open>blank\<close>,
  \<^verbatim>\<open>choice\<close>, \<^verbatim>\<open>err\<close>, \<^verbatim>\<open>pattern\<close>, \<^verbatim>\<open>repeat\<close>, \<^verbatim>\<open>repeat1\<close>, \<^verbatim>\<open>seq\<close>, \<^verbatim>\<open>str\<close>,
  \<^verbatim>\<open>prec\<close>, \<^verbatim>\<open>prec_left\<close>, \<^verbatim>\<open>prec_right\<close>, \<^verbatim>\<open>token\<close> and \<^verbatim>\<open>sym\<close>, and carry the names
  of the spec's rule node variants. A \<^verbatim>\<open>rule_ptr\<close> is a shared pointer: \<open>None\<close> is the
  null pointer \<^verbatim>\<open>rule_ptr()\<close>, and the functions take their children as pointers.
\<close>

datatype rule =
    Blank
  | Choice "rule option list"
  | ErrorRecovery "rule option"
  | Pattern string
  | Repeat "rule option"
  | Repeat1 "rule option"
  | Sequence "rule option list"
  | StringLiteral string
  | Precedence int "rule option"
  | PrecedenceLeft int "rule option"
  | PrecedenceRight int "rule option"
  | Token "rule option"
  | Symbol string

type_synonym rule_ptr = "rule option"

record Grammar =
  rules :: "(string \<times> rule_ptr) list"
  ubiquitous_tokens :: "rule_ptr list"

definition Grammar :: "(string \<times> rule_ptr) list \<Rightarrow> Grammar" where
  "Grammar rs = \<lparr>rules = rs, ubiquitous_tokens = []\<rparr>"

datatype GrammarError = GrammarError (message: string)

text \<open>
  What the code takes from outside: the engine's conversion of a value that is not a
  string to a string (\<^verbatim>\<open>Value::ToString\<close>, read as UTF-8), its conversion of a value to
  an integer where that is not the identity (\<^verbatim>\<open>Value::IntegerValue\<close>), and the compiler
  \<^verbatim>\<open>tree_sitter::compile\<close>, which returns the generated code and a null pointer, or an
  error. Both conversions are taken to return a value, as the engine's do for every
  primitive value. The conversion of an object runs the conversion methods of that object,
  which may throw; where a property below names a converted field, it speaks of a field
  that holds no object.
\<close>

record externals =
  ToString :: "js_value \<Rightarrow> string"
  ToInteger :: "js_value \<Rightarrow> int"
  compile :: "Grammar \<Rightarrow> string \<Rightarrow> string \<times> GrammarError option"

section \<open>The binding\<close>

text \<open>
  \<^verbatim>\<open>std::string(const char *)\<close> reads a C string: the bytes before the first NUL.
\<close>

definition c_str :: "string \<Rightarrow> string" where
  "c_str bytes = takeWhile (\<lambda>c. c \<noteq> CHR 0x00) bytes"

lemma c_str_message:
  "c_str (''Unexpected rule type: '' @ c_str type) = ''Unexpected rule type: '' @ c_str type"
  by (simp add: c_str_def)

text \<open>
  \<^verbatim>\<open>StringFromJsString\<close>: \<^verbatim>\<open>String::Utf8Value\<close> converts whatever value the handle holds
  to a string, and the result is read as a C string.
\<close>

definition StringFromJsString :: "externals \<Rightarrow> js_value \<Rightarrow> string" where
  "StringFromJsString ext js_string =
     c_str (case js_string of JsString text \<Rightarrow> text | _ \<Rightarrow> ToString ext js_string)"

text \<open>
  \<^verbatim>\<open>Value::IntegerValue\<close> returns an \<^verbatim>\<open>int64_t\<close>: the value of a number that holds an
  integer of that range, the engine's conversion of anything else.
\<close>

definition IntegerValue :: "externals \<Rightarrow> js_value \<Rightarrow> int" where
  "IntegerValue ext v =
     (case v of
        JsNumber n \<Rightarrow> if - (2 ^ 63) \<le> n \<and> n < 2 ^ 63 then n else ToInteger ext v
      | _ \<Rightarrow> ToInteger ext v)"

subsection \<open>The rule builder\<close>

text \<open>A value read from an object is smaller than the object.\<close>

lemma size_map_of: "map_of props key = Some v \<Longrightarrow> size v < Suc (size_list (size_prod (\<lambda>x. 0) size) props)"
  by (induction props) (auto split: if_splits)

lemma size_member: "v \<in> set elems \<Longrightarrow> size v < Suc (size_list size elems)"
  by (induction elems) auto

lemma size_Get: "IsObject obj \<Longrightarrow> size (Get obj key) < size obj"
  by (cases obj; cases key) (auto split: option.splits dest: size_map_of simp: size_member)

lemma size_ObjectGet: "IsObject obj \<Longrightarrow> size (ObjectGet obj key) < size obj"
  by (simp add: ObjectGet_def size_Get)

lemma size_members: 
  "IsObject obj \<Longrightarrow> ObjectGet obj key = JsArray js_members \<Longrightarrow> size_list size js_members < size obj"
  using size_ObjectGet [of obj key] by simp

text \<open>
  \<^verbatim>\<open>RuleFromJsRule\<close>, with the loop of its \<^verbatim>\<open>CHOICE\<close> and \<^verbatim>\<open>SEQ\<close> branches (the same
  code in both) as \<open>members_loop\<close>: the elements still to visit, the vector \<open>members\<close>
  built so far. \<^verbatim>\<open>Array::Length\<close> on a \<open>members\<close> value that is no array is outside defined
  behaviour. The null pointer that \<^verbatim>\<open>rule_ptr::get\<close> tests for is \<open>None\<close>. The message of
  the last branch is handed over as a C string, which changes nothing: \<open>type\<close> was read
  as a C string and holds no NUL (lemma \<open>c_str_message\<close>).
\<close>

function RuleFromJsRule :: "externals \<Rightarrow> js_value \<Rightarrow> isolate \<Rightarrow> (rule_ptr \<times> isolate) outcome"
  and members_loop ::
    "externals \<Rightarrow> js_value list \<Rightarrow> rule_ptr list \<Rightarrow> isolate \<Rightarrow> (rule_ptr list option \<times> isolate) outcome"
where
  "RuleFromJsRule ext js_rule s =
     (if \<not> IsObject js_rule then
        Returned (None, NanThrowTypeError ''Expected rule to be an object'' s)
      else
        let js_type = ObjectGet js_rule ''type'' in
        if \<not> IsString js_type then
          Returned (None, NanThrowTypeError ''Expected rule type to be a string'' s)
        else
          let type = StringFromJsString ext js_type in
          if type = ''BLANK'' then Returned (Some Blank, s)
          else if type = ''CHOICE'' then
            (case ObjectGet js_rule ''members'' of
               JsArray js_members \<Rightarrow>
                 (case members_loop ext js_members [] s of
                    Undefined_Behaviour \<Rightarrow> Undefined_Behaviour
                  | Returned (None, s') \<Rightarrow> Returned (None, s')
                  | Returned (Some members, s') \<Rightarrow> Returned (Some (Choice members), s'))
             | _ \<Rightarrow> Undefined_Behaviour)
          else if type = ''ERROR'' then
            (case RuleFromJsRule ext (ObjectGet js_rule ''value'') s of
               Undefined_Behaviour \<Rightarrow> Undefined_Behaviour
             | Returned (child, s') \<Rightarrow> Returned (Some (ErrorRecovery child), s'))
          else if type = ''PATTERN'' then
            Returned (Some (Pattern (StringFromJsString ext (ObjectGet js_rule ''value''))), s)
          else if type = ''REPEAT'' then
            (case RuleFromJsRule ext (ObjectGet js_rule ''value'') s of
               Undefined_Behaviour \<Rightarrow> Undefined_Behaviour
             | Returned (child, s') \<Rightarrow> Returned (Some (Repeat child), s'))
          else if type = ''REPEAT1'' then
            (case RuleFromJsRule ext (ObjectGet js_rule ''value'') s of
               Undefined_Behaviour \<Rightarrow> Undefined_Behaviour
             | Returned (child, s') \<Rightarrow> Returned (Some (Repeat1 child), s'))
          else if type = ''SEQ'' then
            (case ObjectGet js_rule ''members'' of
               JsArray js_members \<Rightarrow>
                 (case members_loop ext js_members [] s of
                    Undefined_Behaviour \<Rightarrow> Undefined_Behaviour
                  | Returned (None, s') \<Rightarrow> Returned (None, s')
                  | Returned (Some members, s') \<Rightarrow> Returned (Some (Sequence members), s'))
             | _ \<Rightarrow> Undefined_Behaviour)
          else if type = ''STRING'' then
            Returned (Some (StringLiteral (StringFromJsString ext (ObjectGet js_rule ''value''))), s)
          else if type = ''PREC'' then
            (case RuleFromJsRule ext (ObjectGet js_rule ''rule'') s of
               Undefined_Behaviour \<Rightarrow> Undefined_Behaviour
             | Returned (None, s') \<Rightarrow> Returned (None, s')
             | Returned (Some rule, s') \<Rightarrow>
                 Returned (Some (Precedence (IntegerValue ext (ObjectGet js_rule ''value'')) (Some rule)), s'))
          else if type = ''PREC_LEFT'' then
            (case RuleFromJsRule ext (ObjectGet js_rule ''rule'') s of
               Undefined_Behaviour \<Rightarrow> Undefined_Behaviour
             | Returned (None, s') \<Rightarrow> Returned (None, s')
             | Returned (Some rule, s') \<Rightarrow>
                 Returned (Some (PrecedenceLeft (IntegerValue ext (ObjectGet js_rule ''value'')) (Some rule)), s'))
          else if type = ''PREC_RIGHT'' then
            (case RuleFromJsRule ext (ObjectGet js_rule ''rule'') s of
               Undefined_Behaviour \<Rightarrow> Undefined_Behaviour
             | Returned (None, s') \<Rightarrow> Returned (None, s')
             | Returned (Some rule, s') \<Rightarrow>
                 Returned (Some (PrecedenceRight (IntegerValue ext (ObjectGet js_rule ''value'')) (Some rule)), s'))
          else if type = ''TOKEN'' then
            (case RuleFromJsRule ext (ObjectGet js_rule ''value'') s of
               Undefined_Behaviour \<Rightarrow> Undefined_Behaviour
             | Returned (None, s') \<Rightarrow> Returned (None, s')
             | Returned (Some v, s') \<Rightarrow> Returned (Some (Token (Some v)), s'))
          else if type = ''SYMBOL'' then
            Returned (Some (Symbol (StringFromJsString ext (ObjectGet js_rule ''name''))), s)
          else
            Returned (None, NanThrowError (NanError (''Unexpected rule type: '' @ type)) s))"
| "members_loop ext [] members s = Returned (Some members, s)"
| "members_loop ext (js_member # rest) members s =
     (case RuleFromJsRule ext js_member s of
        Undefined_Behaviour \<Rightarrow> Undefined_Behaviour
      | Returned (None, s') \<Rightarrow> Returned (None, s')
      | Returned (Some member, s') \<Rightarrow> members_loop ext rest (members @ [Some member]) s')"
  by pat_completeness auto
termination
  by (relation "measure (\<lambda>x. case x of Inl (ext, js_rule, s) \<Rightarrow> size js_rule
                                    | Inr (ext, js_members, members, s) \<Rightarrow> size_list size js_members)")
     (auto simp: size_ObjectGet size_members)

declare RuleFromJsRule.simps [simp del]

subsection \<open>The grammar\<close>

text \<open>
  The two loops of \<^verbatim>\<open>GrammarFromJsGrammar\<close>: over the property names of \<open>rules\<close>, and
  over the elements of \<open>ubiquitous\<close>.
\<close>

fun rules_loop ::
  "externals \<Rightarrow> js_value \<Rightarrow> js_value list \<Rightarrow> (string \<times> rule_ptr) list \<Rightarrow> isolate
     \<Rightarrow> ((string \<times> rule_ptr) list option \<times> isolate) outcome"
where
  "rules_loop ext js_rules [] rs s = Returned (Some rs, s)"
| "rules_loop ext js_rules (js_rule_name # rest) rs s =
     (let rule_name = StringFromJsString ext js_rule_name in
      case RuleFromJsRule ext (Get js_rules js_rule_name) s of
        Undefined_Behaviour \<Rightarrow> Undefined_Behaviour
      | Returned (None, s') \<Rightarrow> Returned (None, s')
      | Returned (Some rule, s') \<Rightarrow> rules_loop ext js_rules rest (rs @ [(rule_name, Some rule)]) s')"

fun ubiquitous_loop ::
  "externals \<Rightarrow> js_value list \<Rightarrow> rule_ptr list \<Rightarrow> isolate \<Rightarrow> (rule_ptr list \<times> isolate) outcome"
where
  "ubiquitous_loop ext [] tokens s = Returned (tokens, s)"
| "ubiquitous_loop ext (js_token # rest) tokens s =
     (case RuleFromJsRule ext js_token s of
        Undefined_Behaviour \<Rightarrow> Undefined_Behaviour
      | Returned (token, s') \<Rightarrow> ubiquitous_loop ext rest (tokens @ [token]) s')"

text \<open>
  \<^verbatim>\<open>GrammarFromJsGrammar\<close> returns the pair of a grammar and a success flag. Its caller
  has cast the argument to an object without looking at it; reading a property through
  that handle when the value is no object is outside defined behaviour.
\<close>

definition GrammarFromJsGrammar ::
  "externals \<Rightarrow> js_value \<Rightarrow> isolate \<Rightarrow> ((Grammar \<times> bool) \<times> isolate) outcome"
where
  "GrammarFromJsGrammar ext js_grammar s =
     (if \<not> IsObject js_grammar then Undefined_Behaviour
      else
        let js_rules = ObjectGet js_grammar ''rules'' in
        if \<not> IsObject js_rules then
          Returned ((Grammar [], False), NanThrowTypeError ''Expected rules to be an object'' s)
        else
          case rules_loop ext js_rules (GetOwnPropertyNames js_rules) [] s of
            Undefined_Behaviour \<Rightarrow> Undefined_Behaviour
          | Returned (None, s') \<Rightarrow> Returned ((Grammar [], False), s')
          | Returned (Some rs, s') \<Rightarrow>
              let result = Grammar rs;
                  js_ubiquitous_tokens = ObjectGet js_grammar ''ubiquitous''
              in
                if \<not> IsUndefined js_ubiquitous_tokens then
                  (case js_ubiquitous_tokens of
                     JsArray js_tokens \<Rightarrow>
                       (case ubiquitous_loop ext js_tokens [] s' of
                          Undefined_Behaviour \<Rightarrow> Undefined_Behaviour
                        | Returned (tokens, s'') \<Rightarrow>
                            Returned ((result\<lparr>ubiquitous_tokens := tokens\<rparr>, True), s''))
                   | _ \<Rightarrow>
                       Returned ((Grammar [], False),
                         NanThrowTypeError ''Expected ubiquitous_tokens to be an array'' s'))
                else Returned ((result, True), s'))"

subsection \<open>The entry point\<close>

text \<open>
  What a call of \<^verbatim>\<open>Compile\<close> leaves behind: the value handed to \<^verbatim>\<open>NanReturnValue\<close> or
  \<^verbatim>\<open>NanReturnUndefined\<close>, the exceptions scheduled during the call, and the calls of
  \<^verbatim>\<open>tree_sitter::compile\<close> it made, each with its grammar and name.
\<close>

record call_result =
  return_value :: js_value
  exceptions :: isolate
  compiler_calls :: "(Grammar \<times> string) list"

text \<open>
  \<^verbatim>\<open>Compile\<close>. Neither of its two checks returns after \<^verbatim>\<open>NanThrowTypeError\<close>: after a
  grammar that is no object the code goes on to read the properties of that value through
  the unchecked handle, which is outside defined behaviour; after a name that is no string
  it goes on with the conversion of that value to a string. \<open>args[0]\<close> of a call without
  arguments is \<open>undefined\<close>. The call starts with no exception scheduled. The message
  of the compiler's error reaches \<^verbatim>\<open>NanError\<close> as \<^verbatim>\<open>message.c_str()\<close>, a C string; the
  generated code is returned as the \<^verbatim>\<open>std::string\<close> it is.
\<close>

definition Compile :: "externals \<Rightarrow> js_value list \<Rightarrow> call_result outcome" where
  "Compile ext args =
     (let js_grammar = (case args of [] \<Rightarrow> JsUndefined | arg # _ \<Rightarrow> arg);
          s0 = (if \<not> IsObject js_grammar
                then NanThrowTypeError ''Expected grammar to be an object'' [] else [])
      in
        if \<not> IsObject js_grammar then Undefined_Behaviour
        else
          let js_name = ObjectGet js_grammar ''name'';
              s1 = (if \<not> IsString js_name
                    then NanThrowTypeError ''Expected grammar name to be a string'' s0 else s0);
              name = StringFromJsString ext js_name
          in
            case GrammarFromJsGrammar ext js_grammar s1 of
              Undefined_Behaviour \<Rightarrow> Undefined_Behaviour
            | Returned ((grammar, ok), s2) \<Rightarrow>
                if \<not> ok then
                  Returned \<lparr>return_value = JsUndefined, exceptions = s2, compiler_calls = []\<rparr>
                else
                  let result = compile ext grammar name;
                      s3 = (case snd result of
                              Some e \<Rightarrow>
                                NanThrowError
                                  (SetProperty (NanError (c_str (message e))) ''isGrammarError'' (JsBoolean True)) s2
                            | None \<Rightarrow> s2)
                  in Returned \<lparr>return_value = JsString (fst result), exceptions = s3,
                       compiler_calls = [(grammar, name)]\<rparr>)"

section \<open>Vocabulary of the properties\<close>

subsection \<open>Type tags\<close>

text \<open>
  The type tag the builder dispatches on: the \<open>type\<close> property of an object, when it is
  a string, read as a C string.
\<close>

definition rule_type :: "js_value \<Rightarrow> string option" where
  "rule_type js_rule =
     (if IsObject js_rule then
        (case ObjectGet js_rule ''type'' of JsString tag \<Rightarrow> Some (c_str tag) | _ \<Rightarrow> None)
      else None)"

text \<open>
  The thirteen tags in the spec's groups: the composite tags, the single-child tags, the
  precedence tags, the tags with a text field, and \<open>BLANK\<close>; with the rule node that
  belongs to each tag and the name of the text field.
\<close>

definition composite_tags :: "string set" where
  "composite_tags = {''CHOICE'', ''SEQ''}"

definition single_child_tags :: "string set" where
  "single_child_tags = {''ERROR'', ''REPEAT'', ''REPEAT1'', ''TOKEN''}"

definition precedence_tags :: "string set" where
  "precedence_tags = {''PREC'', ''PREC_LEFT'', ''PREC_RIGHT''}"

definition text_tags :: "string set" where
  "text_tags = {''STRING'', ''PATTERN'', ''SYMBOL''}"

definition known_tags :: "string set" where
  "known_tags = {''BLANK''} \<union> composite_tags \<union> single_child_tags \<union> precedence_tags \<union> text_tags"

definition composite_node :: "string \<Rightarrow> rule_ptr list \<Rightarrow> rule" where
  "composite_node tag = (if tag = ''SEQ'' then Sequence else Choice)"

definition single_child_node :: "string \<Rightarrow> rule_ptr \<Rightarrow> rule" where
  "single_child_node tag =
     (if tag = ''REPEAT'' then Repeat else if tag = ''REPEAT1'' then Repeat1
      else if tag = ''TOKEN'' then Token else ErrorRecovery)"

definition precedence_node :: "string \<Rightarrow> int \<Rightarrow> rule_ptr \<Rightarrow> rule" where
  "precedence_node tag =
     (if tag = ''PREC'' then Precedence else if tag = ''PREC_LEFT'' then PrecedenceLeft
      else PrecedenceRight)"

definition text_node :: "string \<Rightarrow> string \<Rightarrow> rule" where
  "text_node tag =
     (if tag = ''STRING'' then StringLiteral else if tag = ''PATTERN'' then Pattern else Symbol)"

definition text_key :: "string \<Rightarrow> string" where
  "text_key tag = (if tag = ''SYMBOL'' then ''name'' else ''value'')"

subsection \<open>Well-formed descriptors and their nodes\<close>

text \<open>
  The spec's well-formed descriptor and the node that corresponds to it, written from the
  spec and not from the code: \<open>rule_node\<close> gives the node of a descriptor that has a known
  tag and the fields of that tag in the right shape (a text without NUL, a precedence that
  is an integer of the 64-bit range, members and children that are well formed in turn),
  and \<open>None\<close> for every other value.
\<close>

definition text_field :: "(string \<times> js_value) list \<Rightarrow> string \<Rightarrow> string option" where
  "text_field props key =
     (case map_of props key of
        Some (JsString text) \<Rightarrow> if CHR 0x00 \<in> set text then None else Some text
      | _ \<Rightarrow> None)"

definition integer_field :: "(string \<times> js_value) list \<Rightarrow> string \<Rightarrow> int option" where
  "integer_field props key =
     (case map_of props key of
        Some (JsNumber n) \<Rightarrow> if - (2 ^ 63) \<le> n \<and> n < 2 ^ 63 then Some n else None
      | _ \<Rightarrow> None)"

lemma size_property: "map_of props key = Some v \<Longrightarrow> size v < size (JsObject props)"
  using size_map_of [of props key v] by simp

lemma size_property_member:
  "map_of props key = Some (JsArray elems) \<Longrightarrow> v \<in> set elems \<Longrightarrow> size v < size (JsObject props)"
  using size_map_of [of props key "JsArray elems"] size_member [of v elems] by simp

function rule_node :: "js_value \<Rightarrow> rule option" where
  "rule_node descriptor =
     (case descriptor of
        JsObject props \<Rightarrow>
          (case map_of props ''type'' of
             Some (JsString tag) \<Rightarrow>
               if tag = ''BLANK'' then Some Blank
               else if tag \<in> text_tags then
                 map_option (text_node tag) (text_field props (text_key tag))
               else if tag \<in> composite_tags then
                 (case map_of props ''members'' of
                    Some (JsArray members) \<Rightarrow>
                      if list_all (\<lambda>member. rule_node member \<noteq> None) members
                      then Some (composite_node tag (map rule_node members))
                      else None
                  | _ \<Rightarrow> None)
               else if tag \<in> single_child_tags then
                 (case map_of props ''value'' of
                    Some child \<Rightarrow>
                      (case rule_node child of
                         Some node \<Rightarrow> Some (single_child_node tag (Some node))
                       | None \<Rightarrow> None)
                  | None \<Rightarrow> None)
               else if tag \<in> precedence_tags then
                 (case map_of props ''rule'' of
                    Some child \<Rightarrow>
                      (case (integer_field props ''value'', rule_node child) of
                         (Some level, Some node) \<Rightarrow> Some (precedence_node tag level (Some node))
                       | _ \<Rightarrow> None)
                  | None \<Rightarrow> None)
               else None
           | _ \<Rightarrow> None)
      | _ \<Rightarrow> None)"
  by pat_completeness auto
termination
proof (relation "measure size", goal_cases)
  case 1
  show ?case by simp
next
  case (2 descriptor props x2 tag x2a elems member)
  then show ?case by (simp only: in_measure size_property_member)
next
  case (3 descriptor props x2 tag x2a elems member)
  then show ?case by (simp only: in_measure size_property_member)
next
  case (4 descriptor props x2 tag child)
  then show ?case by (simp only: in_measure size_property)
next
  case (5 descriptor props x2 tag child)
  then show ?case by (simp only: in_measure size_property)
qed

declare rule_node.simps [simp del]

subsection \<open>Shapes of the builder's branches\<close>

text \<open>
  The three ways a branch of \<^verbatim>\<open>RuleFromJsRule\<close> treats what it built: the child passed to
  the constructor untested (\<open>ERROR\<close>, \<open>REPEAT\<close>, \<open>REPEAT1\<close>), the child tested for the
  null pointer first (\<open>TOKEN\<close> and the precedence tags), and the loop over \<open>members\<close>.
\<close>

definition wrap_child ::
  "(rule_ptr \<Rightarrow> rule) \<Rightarrow> (rule_ptr \<times> isolate) outcome \<Rightarrow> (rule_ptr \<times> isolate) outcome" where
  "wrap_child node built =
     (case built of
        Undefined_Behaviour \<Rightarrow> Undefined_Behaviour
      | Returned (child, s') \<Rightarrow> Returned (Some (node child), s'))"

definition wrap_tested ::
  "(rule_ptr \<Rightarrow> rule) \<Rightarrow> (rule_ptr \<times> isolate) outcome \<Rightarrow> (rule_ptr \<times> isolate) outcome" where
  "wrap_tested node built =
     (case built of
        Undefined_Behaviour \<Rightarrow> Undefined_Behaviour
      | Returned (None, s') \<Rightarrow> Returned (None, s')
      | Returned (Some child, s') \<Rightarrow> Returned (Some (node (Some child)), s'))"

definition wrap_members ::
  "(rule_ptr list \<Rightarrow> rule) \<Rightarrow> externals \<Rightarrow> js_value \<Rightarrow> isolate \<Rightarrow> (rule_ptr \<times> isolate) outcome" where
  "wrap_members node ext js_members s =
     (case js_members of
        JsArray elems \<Rightarrow>
          (case members_loop ext elems [] s of
             Undefined_Behaviour \<Rightarrow> Undefined_Behaviour
           | Returned (None, s') \<Rightarrow> Returned (None, s')
           | Returned (Some members, s') \<Rightarrow> Returned (Some (node members), s'))
      | _ \<Rightarrow> Undefined_Behaviour)"

subsection \<open>Exceptions of a call\<close>

text \<open>
  A result whose exceptions follow those of an earlier isolate; a list of exceptions none
  of which carries a property (what \<^verbatim>\<open>NanThrowTypeError\<close> and the bare \<^verbatim>\<open>NanError\<close> make);
  a result that, when it holds no rule, comes with an exception; and a result whose
  isolate extends a given one by propertyless exceptions. The error of the compiler is the
  one tagged \<open>isGrammarError\<close>.
\<close>

definition appended :: "isolate \<Rightarrow> ('a \<times> isolate) outcome \<Rightarrow> ('a \<times> isolate) outcome" where
  "appended s result =
     (case result of
        Undefined_Behaviour \<Rightarrow> Undefined_Behaviour
      | Returned (r, errors) \<Rightarrow> Returned (r, s @ errors))"

definition validation_errors :: "isolate \<Rightarrow> bool" where
  "validation_errors errors = list_all (\<lambda>e. error_properties e = []) errors"

definition failure_raises :: "('a option \<times> isolate) outcome \<Rightarrow> bool" where
  "failure_raises result =
     (case result of
        Undefined_Behaviour \<Rightarrow> True
      | Returned (r, errors) \<Rightarrow> (r = None \<longrightarrow> errors \<noteq> []) \<and> validation_errors errors)"

definition extends :: "isolate \<Rightarrow> ('a \<times> isolate) outcome \<Rightarrow> bool" where
  "extends s result =
     (case result of
        Undefined_Behaviour \<Rightarrow> True
      | Returned (r, s') \<Rightarrow> (\<exists>errors. s' = s @ errors \<and> validation_errors errors))"

definition is_grammar_error :: "js_error \<Rightarrow> bool" where
  "is_grammar_error e \<longleftrightarrow> map_of (error_properties e) ''isGrammarError'' = Some (JsBoolean True)"

subsection \<open>What the builder makes of a value\<close>

text \<open>
  The rule pointer and the exceptions that \<^verbatim>\<open>RuleFromJsRule\<close> gives for a value when it
  starts with no exception scheduled, and the values for which it returns a rule; the
  same for the entries of a \<open>rules\<close> object, in enumeration order.
\<close>

definition built :: "externals \<Rightarrow> js_value \<Rightarrow> rule_ptr" where
  "built ext js_rule =
     (case RuleFromJsRule ext js_rule [] of Returned (r, errors) \<Rightarrow> r | Undefined_Behaviour \<Rightarrow> None)"

definition raised :: "externals \<Rightarrow> js_value \<Rightarrow> isolate" where
  "raised ext js_rule =
     (case RuleFromJsRule ext js_rule [] of Returned (r, errors) \<Rightarrow> errors | Undefined_Behaviour \<Rightarrow> [])"

definition builds :: "externals \<Rightarrow> js_value \<Rightarrow> bool" where
  "builds ext js_rule =
     (case RuleFromJsRule ext js_rule [] of Returned (Some node, errors) \<Rightarrow> True | _ \<Rightarrow> False)"

definition built_rules :: "externals \<Rightarrow> js_value \<Rightarrow> (string \<times> rule_ptr) list" where
  "built_rules ext js_rules =
     map (\<lambda>name. (StringFromJsString ext name, built ext (Get js_rules name)))
       (GetOwnPropertyNames js_rules)"

definition raised_by_rules :: "externals \<Rightarrow> js_value \<Rightarrow> isolate" where
  "raised_by_rules ext js_rules =
     concat (map (\<lambda>name. raised ext (Get js_rules name)) (GetOwnPropertyNames js_rules))"

definition rules_build :: "externals \<Rightarrow> js_value \<Rightarrow> bool" where
  "rules_build ext js_rules \<longleftrightarrow>
     IsObject js_rules \<and>
     list_all (\<lambda>name. builds ext (Get js_rules name)) (GetOwnPropertyNames js_rules)"

subsection \<open>Examples\<close>

text \<open>
  Three instances of the outside world, for the examples: the engine converts
  \<open>undefined\<close>, \<open>null\<close> and the booleans to strings, and \<open>undefined\<close> and \<open>null\<close> to
  the integer 0, as ECMAScript says (no example converts another value), and the compiler
  accepts every grammar, or rejects every grammar, with a message that holds no NUL
  character or with one that does.
\<close>

definition engine_conversion :: "js_value \<Rightarrow> string" where
  "engine_conversion v =
     (case v of
        JsUndefined \<Rightarrow> ''undefined''
      | JsNull \<Rightarrow> ''null''
      | JsBoolean b \<Rightarrow> (if b then ''true'' else ''false'')
      | _ \<Rightarrow> [])"

definition accepting :: externals where
  "accepting =
     \<lparr>ToString = engine_conversion, ToInteger = (\<lambda>v. 0),
      compile = (\<lambda>grammar name. (''parser'', None))\<rparr>"

definition rejecting :: externals where
  "rejecting =
     \<lparr>ToString = engine_conversion, ToInteger = (\<lambda>v. 0),
      compile = (\<lambda>grammar name. ([], Some (GrammarError ''Undefined rule'')))\<rparr>"

definition rejecting_with_nul :: externals where
  "rejecting_with_nul =
     \<lparr>ToString = engine_conversion, ToInteger = (\<lambda>v. 0),
      compile = (\<lambda>grammar name. ([], Some (GrammarError [CHR ''a'', CHR 0x00, CHR ''b''])))\<rparr>"

text \<open>The descriptors and grammars of the examples.\<close>

definition string_example :: js_value where
  "string_example = JsObject [(''type'', JsString ''STRING''), (''value'', JsString ''foo'')]"

definition sequence_example :: js_value where
  "sequence_example =
     JsObject
       [(''type'', JsString ''SEQ''),
        (''members'',
           JsArray [JsObject [(''type'', JsString ''STRING''), (''value'', JsString ''a'')],
             JsObject [(''type'', JsString ''BLANK'')]])]"

definition prec_left_example :: js_value where
  "prec_left_example =
     JsObject
       [(''type'', JsString ''PREC_LEFT''), (''value'', JsNumber 2),
        (''rule'', JsObject [(''type'', JsString ''SYMBOL''), (''name'', JsString ''expr'')])]"

definition blank_example :: js_value where
  "blank_example = JsObject [(''type'', JsString ''BLANK''), (''value'', JsNumber 7)]"

definition prec_with_null_value :: js_value where
  "prec_with_null_value =
     JsObject
       [(''type'', JsString ''PREC_LEFT''), (''value'', JsNull),
        (''rule'', JsObject [(''type'', JsString ''BLANK'')])]"


definition grammar_without_ubiquitous :: js_value where
  "grammar_without_ubiquitous =
     JsObject
       [(''name'', JsString ''g''),
        (''rules'', JsObject [(''a'', JsObject [(''type'', JsString ''BLANK'')])])]"

definition grammar_with_ubiquitous :: "js_value \<Rightarrow> js_value" where
  "grammar_with_ubiquitous v =
     JsObject
       [(''name'', JsString ''g''),
        (''rules'', JsObject [(''a'', JsObject [(''type'', JsString ''BLANK'')])]),
        (''ubiquitous'', v)]"

definition ordered_rules :: "(string \<times> js_value) list" where
  "ordered_rules =
     [(''b'', JsObject [(''type'', JsString ''BLANK'')]),
      (''a'', JsObject [(''type'', JsString ''STRING''), (''value'', JsString ''x'')]),
      (''c'', JsObject [(''type'', JsString ''SYMBOL''), (''name'', JsString ''b'')])]"

definition ordered_grammar :: js_value where
  "ordered_grammar = JsObject [(''name'', JsString ''g''), (''rules'', JsObject ordered_rules)]"

definition rejected_call :: call_result where
  "rejected_call =
     \<lparr>return_value = JsString [],
      exceptions = [JsError Error ''Undefined rule'' [(''isGrammarError'', JsBoolean True)]],
      compiler_calls = [(\<lparr>rules = [(''a'', Some Blank)], ubiquitous_tokens = []\<rparr>, ''g'')]\<rparr>"

definition failed_call :: call_result where
  "failed_call =
     \<lparr>return_value = JsUndefined,
      exceptions = [JsError TypeError ''Expected ubiquitous_tokens to be an array'' []],
      compiler_calls = []\<rparr>"

section \<open>Evaluation\<close>

lemmas eval_simps =
  RuleFromJsRule.simps ObjectGet_def StringFromJsString_def c_str_def NanThrowError_def
  NanThrowTypeError_def NanError_def GrammarFromJsGrammar_def Grammar_def Compile_def
  accepting_def rejecting_def engine_conversion_def

lemmas spec_simps =
  rule_node.simps text_tags_def composite_tags_def single_child_tags_def precedence_tags_def
  text_node_def text_key_def composite_node_def single_child_node_def precedence_node_def
  text_field_def integer_field_def

lemmas grammar_simps =
  grammar_without_ubiquitous_def grammar_with_ubiquitous_def rules_build_def builds_def built_def
  raised_def built_rules_def raised_by_rules_def

lemmas tag_defs = composite_tags_def single_child_tags_def precedence_tags_def text_tags_def

section \<open>The builder, tag by tag\<close>

lemma rule_typeD:
  "rule_type js_rule = Some t \<Longrightarrow>
     IsObject js_rule \<and> IsString (ObjectGet js_rule ''type'') \<and>
     StringFromJsString ext (ObjectGet js_rule ''type'') = t"
  by (auto simp: rule_type_def StringFromJsString_def split: if_splits js_value.splits)

lemma rule_type_None:
  "rule_type js_rule = None \<Longrightarrow> \<not> IsObject js_rule \<or> \<not> IsString (ObjectGet js_rule ''type'')"
  by (auto simp: rule_type_def split: if_splits js_value.splits)

lemma rule_type_cases [case_names no_object no_type typed]:
  obtains "\<not> IsObject js_rule"
  | "IsObject js_rule" "\<not> IsString (ObjectGet js_rule ''type'')"
  | t where "rule_type js_rule = Some t"
  by (cases "rule_type js_rule") (auto dest: rule_type_None)

lemma tags_disjoint:
  "tag \<in> text_tags \<Longrightarrow> tag \<noteq> ''BLANK''"
  "tag \<in> composite_tags \<Longrightarrow> tag \<noteq> ''BLANK'' \<and> tag \<notin> text_tags"
  "tag \<in> single_child_tags \<Longrightarrow> tag \<noteq> ''BLANK'' \<and> tag \<notin> text_tags \<and> tag \<notin> composite_tags"
  "tag \<in> precedence_tags \<Longrightarrow>
     tag \<noteq> ''BLANK'' \<and> tag \<notin> text_tags \<and> tag \<notin> composite_tags \<and> tag \<notin> single_child_tags"
  by (auto simp: tag_defs)

lemma known_tags_cases:
  assumes "t \<in> known_tags"
  obtains (blank_tag) "t = ''BLANK''"
    | (text_tag) "t \<in> text_tags"
    | (composite_tag) "t \<in> composite_tags"
    | (single_child_tag) "t \<in> single_child_tags"
    | (precedence_tag) "t \<in> precedence_tags"
  using assms unfolding known_tags_def Un_iff insert_iff empty_iff by metis

lemma known_tag_c_str: "tag \<in> known_tags \<Longrightarrow> c_str tag = tag"
  by (auto simp: known_tags_def tag_defs c_str_def)

lemma rule_type_known:
  "map_of props ''type'' = Some (JsString tag) \<Longrightarrow> tag \<in> known_tags \<Longrightarrow>
     rule_type (JsObject props) = Some tag"
  by (simp add: rule_type_def ObjectGet_def known_tag_c_str)

lemma ObjectGet_property: "map_of props key = Some v \<Longrightarrow> ObjectGet (JsObject props) key = v"
  by (simp add: ObjectGet_def)

lemma RuleFromJsRule_no_object:
  "\<not> IsObject js_rule \<Longrightarrow>
     RuleFromJsRule ext js_rule s =
       Returned (None, s @ [JsError TypeError ''Expected rule to be an object'' []])"
  by (subst RuleFromJsRule.simps) (simp add: NanThrowTypeError_def)

lemma RuleFromJsRule_no_type:
  "IsObject js_rule \<Longrightarrow> \<not> IsString (ObjectGet js_rule ''type'') \<Longrightarrow>
     RuleFromJsRule ext js_rule s =
       Returned (None, s @ [JsError TypeError ''Expected rule type to be a string'' []])"
  by (subst RuleFromJsRule.simps) (simp add: NanThrowTypeError_def)

lemma RuleFromJsRule_typed:
  assumes "rule_type js_rule = Some t"
  shows "RuleFromJsRule ext js_rule s =
    (if t = ''BLANK'' then Returned (Some Blank, s)
     else if t = ''CHOICE'' then wrap_members Choice ext (ObjectGet js_rule ''members'') s
     else if t = ''ERROR'' then wrap_child ErrorRecovery (RuleFromJsRule ext (ObjectGet js_rule ''value'') s)
     else if t = ''PATTERN'' then
       Returned (Some (Pattern (StringFromJsString ext (ObjectGet js_rule ''value''))), s)
     else if t = ''REPEAT'' then wrap_child Repeat (RuleFromJsRule ext (ObjectGet js_rule ''value'') s)
     else if t = ''REPEAT1'' then wrap_child Repeat1 (RuleFromJsRule ext (ObjectGet js_rule ''value'') s)
     else if t = ''SEQ'' then wrap_members Sequence ext (ObjectGet js_rule ''members'') s
     else if t = ''STRING'' then
       Returned (Some (StringLiteral (StringFromJsString ext (ObjectGet js_rule ''value''))), s)
     else if t = ''PREC'' then
       wrap_tested (Precedence (IntegerValue ext (ObjectGet js_rule ''value'')))
         (RuleFromJsRule ext (ObjectGet js_rule ''rule'') s)
     else if t = ''PREC_LEFT'' then
       wrap_tested (PrecedenceLeft (IntegerValue ext (ObjectGet js_rule ''value'')))
         (RuleFromJsRule ext (ObjectGet js_rule ''rule'') s)
     else if t = ''PREC_RIGHT'' then
       wrap_tested (PrecedenceRight (IntegerValue ext (ObjectGet js_rule ''value'')))
         (RuleFromJsRule ext (ObjectGet js_rule ''rule'') s)
     else if t = ''TOKEN'' then wrap_tested Token (RuleFromJsRule ext (ObjectGet js_rule ''value'') s)
     else if t = ''SYMBOL'' then
       Returned (Some (Symbol (StringFromJsString ext (ObjectGet js_rule ''name''))), s)
     else Returned (None, s @ [JsError Error (''Unexpected rule type: '' @ t) []]))"
  using rule_typeD [OF assms, of ext]
  by (subst RuleFromJsRule.simps)
     (simp add: wrap_members_def wrap_child_def wrap_tested_def NanThrowError_def NanError_def
           cong: js_value.case_cong outcome.case_cong)

lemma RuleFromJsRule_tagged:
  assumes "rule_type js_rule = Some t"
  shows "t = ''BLANK'' \<Longrightarrow> RuleFromJsRule ext js_rule s = Returned (Some Blank, s)"
    and "t \<in> text_tags \<Longrightarrow>
      RuleFromJsRule ext js_rule s =
        Returned (Some (text_node t (StringFromJsString ext (ObjectGet js_rule (text_key t)))), s)"
    and "t \<in> composite_tags \<Longrightarrow>
      RuleFromJsRule ext js_rule s =
        wrap_members (composite_node t) ext (ObjectGet js_rule ''members'') s"
    and "t \<in> single_child_tags \<Longrightarrow>
      RuleFromJsRule ext js_rule s =
        (if t = ''TOKEN'' then wrap_tested Token else wrap_child (single_child_node t))
          (RuleFromJsRule ext (ObjectGet js_rule ''value'') s)"
    and "t \<in> precedence_tags \<Longrightarrow>
      RuleFromJsRule ext js_rule s =
        wrap_tested (precedence_node t (IntegerValue ext (ObjectGet js_rule ''value'')))
          (RuleFromJsRule ext (ObjectGet js_rule ''rule'') s)"
    and "t \<notin> known_tags \<Longrightarrow>
      RuleFromJsRule ext js_rule s =
        Returned (None, s @ [JsError Error (''Unexpected rule type: '' @ t) []])"
proof -
  note typed = RuleFromJsRule_typed [OF assms, of ext s]
  show "t = ''BLANK'' \<Longrightarrow> RuleFromJsRule ext js_rule s = Returned (Some Blank, s)"
    by (simp add: typed)
  show "t \<in> text_tags \<Longrightarrow>
      RuleFromJsRule ext js_rule s =
        Returned (Some (text_node t (StringFromJsString ext (ObjectGet js_rule (text_key t)))), s)"
    unfolding text_tags_def insert_iff empty_iff
    by (elim disjE) (simp_all add: typed text_node_def text_key_def)
  show "t \<in> composite_tags \<Longrightarrow>
      RuleFromJsRule ext js_rule s =
        wrap_members (composite_node t) ext (ObjectGet js_rule ''members'') s"
    unfolding composite_tags_def insert_iff empty_iff
    by (elim disjE) (simp_all add: typed composite_node_def)
  show "t \<in> single_child_tags \<Longrightarrow>
      RuleFromJsRule ext js_rule s =
        (if t = ''TOKEN'' then wrap_tested Token else wrap_child (single_child_node t))
          (RuleFromJsRule ext (ObjectGet js_rule ''value'') s)"
    unfolding single_child_tags_def insert_iff empty_iff
    by (elim disjE) (simp_all add: typed single_child_node_def)
  show "t \<in> precedence_tags \<Longrightarrow>
      RuleFromJsRule ext js_rule s =
        wrap_tested (precedence_node t (IntegerValue ext (ObjectGet js_rule ''value'')))
          (RuleFromJsRule ext (ObjectGet js_rule ''rule'') s)"
    unfolding precedence_tags_def insert_iff empty_iff
    by (elim disjE) (simp_all add: typed precedence_node_def)
  show "t \<notin> known_tags \<Longrightarrow>
      RuleFromJsRule ext js_rule s =
        Returned (None, s @ [JsError Error (''Unexpected rule type: '' @ t) []])"
    by (simp add: typed known_tags_def tag_defs)
qed

text \<open>
  Induction over descriptors along the calls of the builder: into the members of a
  composite rule, and into the child of a single-child or precedence rule.
\<close>

lemma descriptor_induct
  [case_names no_object no_type blank_tag text_tag composite_tag single_child_tag precedence_tag unknown_tag]:
  assumes "\<And>d. \<not> IsObject d \<Longrightarrow> P d"
    and "\<And>d. IsObject d \<Longrightarrow> \<not> IsString (ObjectGet d ''type'') \<Longrightarrow> P d"
    and "\<And>d. rule_type d = Some ''BLANK'' \<Longrightarrow> P d"
    and "\<And>d t. rule_type d = Some t \<Longrightarrow> t \<in> text_tags \<Longrightarrow> P d"
    and "\<And>d t. rule_type d = Some t \<Longrightarrow> t \<in> composite_tags \<Longrightarrow>
           (\<And>js_members m. ObjectGet d ''members'' = JsArray js_members \<Longrightarrow> m \<in> set js_members \<Longrightarrow> P m)
           \<Longrightarrow> P d"
    and "\<And>d t. rule_type d = Some t \<Longrightarrow> t \<in> single_child_tags \<Longrightarrow> P (ObjectGet d ''value'') \<Longrightarrow> P d"
    and "\<And>d t. rule_type d = Some t \<Longrightarrow> t \<in> precedence_tags \<Longrightarrow> P (ObjectGet d ''rule'') \<Longrightarrow> P d"
    and "\<And>d t. rule_type d = Some t \<Longrightarrow> t \<notin> known_tags \<Longrightarrow> P d"
  shows "P d"
proof (induction d rule: measure_induct_rule [of size])
  case (less d)
  show ?case
  proof (cases d rule: rule_type_cases)
    case no_object
    then show ?thesis by (rule assms(1))
  next
    case no_type
    then show ?thesis by (rule assms(2))
  next
    case (typed t)
    then have obj: "IsObject d"
      by (simp add: rule_type_def split: if_splits)
    show ?thesis
    proof (cases "t \<in> known_tags")
      case False
      with typed show ?thesis by (rule assms(8))
    next
      case True
      then show ?thesis
      proof (cases rule: known_tags_cases)
        case blank_tag
        with typed show ?thesis by (simp add: assms(3))
      next
        case text_tag
        with typed show ?thesis by (rule assms(4))
      next
        case composite_tag
        show ?thesis
        proof (rule assms(5) [OF typed composite_tag])
          fix js_members m
          assume "ObjectGet d ''members'' = JsArray js_members" "m \<in> set js_members"
          then have "size m < size d"
            using size_members [OF obj, of "''members''" js_members] size_member [of m js_members]
            by simp
          then show "P m" by (rule less.IH)
        qed
      next
        case single_child_tag
        from typed single_child_tag less.IH [OF size_ObjectGet [OF obj]] show ?thesis
          by (rule assms(6))
      next
        case precedence_tag
        from typed precedence_tag less.IH [OF size_ObjectGet [OF obj]] show ?thesis
          by (rule assms(7))
      qed
    qed
  qed
qed

section \<open>The builder only adds exceptions\<close>

lemma appended_simps [simp]:
  "appended s Undefined_Behaviour = Undefined_Behaviour"
  "appended s (Returned (r, errors)) = Returned (r, s @ errors)"
  by (simp_all add: appended_def)

lemma appended_appended: "appended s (appended s' result) = appended (s @ s') result"
  by (cases result) (auto simp: appended_def)

lemma appended_wrap [simp]:
  "wrap_child mk (appended s result) = appended s (wrap_child mk result)"
  "wrap_tested mk (appended s result) = appended s (wrap_tested mk result)"
  by (cases result; auto simp: wrap_child_def wrap_tested_def split: option.splits)+

lemma members_loop_appends:
  assumes "\<And>m s. m \<in> set js_members \<Longrightarrow>
             RuleFromJsRule ext m s = appended s (RuleFromJsRule ext m [])"
  shows "members_loop ext js_members members s = appended s (members_loop ext js_members members [])"
  using assms
proof (induction js_members arbitrary: members s)
  case Nil
  show ?case by simp
next
  case (Cons m js_members)
  have m: "RuleFromJsRule ext m s = appended s (RuleFromJsRule ext m [])"
    by (rule Cons.prems) simp
  have rest: "members_loop ext js_members members' s' =
      appended s' (members_loop ext js_members members' [])" for members' s'
    by (rule Cons.IH) (rule Cons.prems, simp)
  show ?case
  proof (cases "RuleFromJsRule ext m []")
    case Undefined_Behaviour
    with m show ?thesis by simp
  next
    case (Returned result)
    obtain r errors where result: "result = (r, errors)" by (cases result)
    show ?thesis
    proof (cases r)
      case None
      with m Returned result show ?thesis by simp
    next
      case (Some member)
      with m Returned result show ?thesis
        using rest [of "members @ [Some member]" "s @ errors"]
          rest [of "members @ [Some member]" errors]
        by (simp add: appended_appended)
    qed
  qed
qed

lemma wrap_members_appends:
  assumes "\<And>js_members m s. js = JsArray js_members \<Longrightarrow> m \<in> set js_members \<Longrightarrow>
             RuleFromJsRule ext m s = appended s (RuleFromJsRule ext m [])"
  shows "wrap_members mk ext js s = appended s (wrap_members mk ext js [])"
proof (cases js)
  case (JsArray js_members)
  have "members_loop ext js_members [] s = appended s (members_loop ext js_members [] [])"
    by (rule members_loop_appends) (rule assms [OF JsArray])
  then show ?thesis
    by (cases "members_loop ext js_members [] []")
       (auto simp: wrap_members_def JsArray split: option.splits)
qed (simp_all add: wrap_members_def)

lemma RuleFromJsRule_appends:
  "RuleFromJsRule ext js_rule s = appended s (RuleFromJsRule ext js_rule [])"
proof (induction js_rule arbitrary: s rule: descriptor_induct)
  case (no_object d)
  then show ?case by (simp add: RuleFromJsRule_no_object)
next
  case (no_type d)
  then show ?case by (simp add: RuleFromJsRule_no_type)
next
  case (blank_tag d)
  then show ?case by (simp add: RuleFromJsRule_tagged(1))
next
  case (text_tag d t)
  then show ?case by (simp add: RuleFromJsRule_tagged(2))
next
  case (composite_tag d t)
  have "wrap_members (composite_node t) ext (ObjectGet d ''members'') s =
      appended s (wrap_members (composite_node t) ext (ObjectGet d ''members'') [])"
    by (rule wrap_members_appends) (rule composite_tag.IH)
  with composite_tag(1,2) show ?case by (simp add: RuleFromJsRule_tagged(3))
next
  case (single_child_tag d t)
  from single_child_tag(1,2) single_child_tag.IH [of s] show ?case
    by (simp add: RuleFromJsRule_tagged(4))
next
  case (precedence_tag d t)
  from precedence_tag(1,2) precedence_tag.IH [of s] show ?case
    by (simp add: RuleFromJsRule_tagged(5))
next
  case (unknown_tag d t)
  then show ?case by (simp add: RuleFromJsRule_tagged(6))
qed

section \<open>A failure comes with an exception\<close>

lemma failure_raises_simps [simp]:
  "failure_raises Undefined_Behaviour"
  "failure_raises (Returned (r, errors)) \<longleftrightarrow> (r = None \<longrightarrow> errors \<noteq> []) \<and> validation_errors errors"
  by (simp_all add: failure_raises_def)

lemma validation_errors_simps [simp]:
  "validation_errors []"
  "validation_errors (e # errors) \<longleftrightarrow> error_properties e = [] \<and> validation_errors errors"
  "validation_errors (errors @ errors') \<longleftrightarrow> validation_errors errors \<and> validation_errors errors'"
  by (simp_all add: validation_errors_def)

lemma failure_raises_wrap:
  "failure_raises result \<Longrightarrow> failure_raises (wrap_child mk result)"
  "failure_raises result \<Longrightarrow> failure_raises (wrap_tested mk result)"
  by (cases result; auto simp: wrap_child_def wrap_tested_def split: option.splits)+

lemma failure_raises_appended:
  "validation_errors s \<Longrightarrow> failure_raises result \<Longrightarrow> failure_raises (appended s result)"
  by (cases result) auto

lemma members_loop_failure_raises:
  assumes "\<And>m. m \<in> set js_members \<Longrightarrow> failure_raises (RuleFromJsRule ext m [])"
  shows "failure_raises (members_loop ext js_members members [])"
  using assms
proof (induction js_members arbitrary: members)
  case Nil
  show ?case by simp
next
  case (Cons m js_members)
  have m: "failure_raises (RuleFromJsRule ext m [])"
    by (rule Cons.prems) simp
  have rest: "failure_raises (members_loop ext js_members members' [])" for members'
    by (rule Cons.IH) (rule Cons.prems, simp)
  show ?case
  proof (cases "RuleFromJsRule ext m []")
    case Undefined_Behaviour
    then show ?thesis by simp
  next
    case (Returned result)
    obtain r errors where result: "result = (r, errors)" by (cases result)
    show ?thesis
    proof (cases r)
      case None
      with m Returned result show ?thesis by simp
    next
      case (Some member)
      have "members_loop ext js_members (members @ [Some member]) errors =
          appended errors (members_loop ext js_members (members @ [Some member]) [])"
        by (rule members_loop_appends) (rule RuleFromJsRule_appends)
      with m Returned result Some rest [of "members @ [Some member]"] show ?thesis
        by (simp add: failure_raises_appended)
    qed
  qed
qed

lemma wrap_members_failure_raises:
  assumes "\<And>js_members m. js = JsArray js_members \<Longrightarrow> m \<in> set js_members \<Longrightarrow>
             failure_raises (RuleFromJsRule ext m [])"
  shows "failure_raises (wrap_members mk ext js [])"
proof (cases js)
  case (JsArray js_members)
  have "failure_raises (members_loop ext js_members [] [])"
    by (rule members_loop_failure_raises) (rule assms [OF JsArray])
  then show ?thesis
    by (cases "members_loop ext js_members [] []")
       (auto simp: wrap_members_def JsArray split: option.splits)
qed (simp_all add: wrap_members_def)

lemma RuleFromJsRule_failure_raises: "failure_raises (RuleFromJsRule ext js_rule [])"
proof (induction js_rule rule: descriptor_induct)
  case (no_object d)
  then show ?case by (simp add: RuleFromJsRule_no_object)
next
  case (no_type d)
  then show ?case by (simp add: RuleFromJsRule_no_type)
next
  case (blank_tag d)
  then show ?case by (simp add: RuleFromJsRule_tagged(1))
next
  case (text_tag d t)
  then show ?case by (simp add: RuleFromJsRule_tagged(2))
next
  case (composite_tag d t)
  have "failure_raises (wrap_members (composite_node t) ext (ObjectGet d ''members'') [])"
    by (rule wrap_members_failure_raises) (rule composite_tag.IH)
  with composite_tag(1,2) show ?case by (simp add: RuleFromJsRule_tagged(3))
next
  case (single_child_tag d t)
  then show ?case
    by (simp add: RuleFromJsRule_tagged(4) failure_raises_wrap)
next
  case (precedence_tag d t)
  then show ?case
    by (simp add: RuleFromJsRule_tagged(5) failure_raises_wrap)
next
  case (unknown_tag d t)
  then show ?case by (simp add: RuleFromJsRule_tagged(6))
qed

lemma extends_simps [simp]:
  "extends s Undefined_Behaviour"
  "extends s (Returned (r, s')) \<longleftrightarrow> (\<exists>errors. s' = s @ errors \<and> validation_errors errors)"
  by (simp_all add: extends_def)

lemma extends_trans:
  "s' = s @ errors \<Longrightarrow> validation_errors errors \<Longrightarrow> extends s' result \<Longrightarrow> extends s result"
  by (cases result) auto

lemma RuleFromJsRule_extends: "extends s (RuleFromJsRule ext js_rule s)"
  using RuleFromJsRule_failure_raises [of ext js_rule]
  by (subst RuleFromJsRule_appends) (cases "RuleFromJsRule ext js_rule []"; auto)

lemma rules_loop_extends: "extends s (rules_loop ext js_rules names rs s)"
proof (induction names arbitrary: rs s)
  case Nil
  show ?case by simp
next
  case (Cons name names)
  show ?case
  proof (cases "RuleFromJsRule ext (Get js_rules name) s")
    case Undefined_Behaviour
    then show ?thesis by simp
  next
    case (Returned result)
    obtain r s' where result: "result = (r, s')" by (cases result)
    from RuleFromJsRule_extends [of s ext "Get js_rules name"] Returned result
    obtain errors where s': "s' = s @ errors" "validation_errors errors"
      by auto
    show ?thesis
    proof (cases r)
      case None
      with Returned result s' show ?thesis by simp
    next
      case (Some rule)
      from extends_trans [OF s' Cons.IH] Returned result Some show ?thesis
        by simp
    qed
  qed
qed

lemma ubiquitous_loop_extends: "extends s (ubiquitous_loop ext js_tokens tokens s)"
proof (induction js_tokens arbitrary: tokens s)
  case Nil
  show ?case by simp
next
  case (Cons js_token js_tokens)
  show ?case
  proof (cases "RuleFromJsRule ext js_token s")
    case Undefined_Behaviour
    then show ?thesis by simp
  next
    case (Returned result)
    obtain r s' where result: "result = (r, s')" by (cases result)
    from RuleFromJsRule_extends [of s ext js_token] Returned result
    obtain errors where s': "s' = s @ errors" "validation_errors errors"
      by auto
    from extends_trans [OF s' Cons.IH] Returned result show ?thesis
      by simp
  qed
qed

lemma GrammarFromJsGrammar_extends: "extends s (GrammarFromJsGrammar ext js_grammar s)"
proof -
  let ?js_rules = "ObjectGet js_grammar ''rules''"
  let ?u = "ObjectGet js_grammar ''ubiquitous''"
  show ?thesis
  proof (cases "rules_loop ext ?js_rules (GetOwnPropertyNames ?js_rules) [] s")
    case Undefined_Behaviour
    then show ?thesis
      by (simp add: GrammarFromJsGrammar_def NanThrowTypeError_def Let_def)
  next
    case (Returned result)
    obtain rs s' where result: "result = (rs, s')" by (cases result)
    from rules_loop_extends [of s ext ?js_rules "GetOwnPropertyNames ?js_rules" "[]"] Returned result
    obtain errors where s': "s' = s @ errors" "validation_errors errors"
      by auto
    show ?thesis
    proof (cases rs)
      case None
      with Returned result s' show ?thesis
        by (simp add: GrammarFromJsGrammar_def NanThrowTypeError_def Let_def)
    next
      case (Some built_rules)
      have tokens: "extends s (ubiquitous_loop ext js_tokens [] s')" for js_tokens
        by (rule extends_trans [OF s' ubiquitous_loop_extends])
      show ?thesis
      proof (cases ?u)
        case (JsArray js_tokens)
        with tokens [of js_tokens] Returned result Some s' show ?thesis
          by (cases "ubiquitous_loop ext js_tokens [] s'")
             (auto simp: GrammarFromJsGrammar_def NanThrowTypeError_def Let_def)
      qed (use Returned result Some s' in
            \<open>simp_all add: GrammarFromJsGrammar_def NanThrowTypeError_def Let_def\<close>)
    qed
  qed
qed

lemma validation_errors_untagged:
  "validation_errors errors \<Longrightarrow> list_all (\<lambda>e. \<not> is_grammar_error e) errors"
  by (induction errors) (simp_all add: is_grammar_error_def)

section \<open>Members and rules that build\<close>

lemma buildsD:
  "builds ext js_rule \<Longrightarrow>
     \<exists>node. built ext js_rule = Some node \<and>
       RuleFromJsRule ext js_rule s = Returned (Some node, s @ raised ext js_rule)"
  by (subst RuleFromJsRule_appends)
     (auto simp: builds_def built_def raised_def split: outcome.splits option.splits)

lemma members_loop_built:
  assumes "\<And>m s. m \<in> set js_members \<Longrightarrow> RuleFromJsRule ext m s = Returned (Some (f m), s)"
  shows "members_loop ext js_members members s =
           Returned (Some (members @ map (\<lambda>m. Some (f m)) js_members), s)"
  using assms by (induction js_members arbitrary: members) simp_all

lemma members_loop_prefix:
  assumes "list_all (builds ext) before"
  shows "members_loop ext (before @ rest) members s =
           members_loop ext rest (members @ map (built ext) before)
             (s @ concat (map (raised ext) before))"
  using assms
proof (induction before arbitrary: members s)
  case Nil
  show ?case by simp
next
  case (Cons m before)
  from Cons.prems have "builds ext m" and before: "list_all (builds ext) before"
    by simp_all
  from buildsD [OF this(1), of s] obtain node where
    "built ext m = Some node"
    "RuleFromJsRule ext m s = Returned (Some node, s @ raised ext m)"
    by blast
  then show ?case
    using Cons.IH [OF before, of "members @ [Some node]" "s @ raised ext m"] by simp
qed

text \<open>
  The loop of a \<open>SEQ\<close> or \<open>CHOICE\<close> ends at the first member for which the builder
  returns the null pointer: no rule is returned, the isolate holds the exceptions of the
  members before it and of that member, and the members after it are not looked at.
\<close>

lemma composite_abort_on_null:
  assumes "rule_type js_rule = Some t" and "t \<in> composite_tags"
    and "ObjectGet js_rule ''members'' = JsArray (before @ failing # after)"
    and "list_all (builds ext) before"
    and "RuleFromJsRule ext failing [] = Returned (None, errors)"
  shows "RuleFromJsRule ext js_rule s =
           Returned (None, s @ concat (map (raised ext) before) @ errors)
         \<and> surfaced (s @ concat (map (raised ext) before) @ errors) = Some (last errors)
         \<and> errors \<noteq> []"
proof -
  let ?s1 = "s @ concat (map (raised ext) before)"
  have failing: "RuleFromJsRule ext failing ?s1 = Returned (None, ?s1 @ errors)"
    by (subst RuleFromJsRule_appends) (simp add: assms(5))
  have "members_loop ext (before @ failing # after) [] s = Returned (None, ?s1 @ errors)"
    by (simp add: members_loop_prefix [OF assms(4)] failing)
  then have result: "RuleFromJsRule ext js_rule s = Returned (None, ?s1 @ errors)"
    by (simp add: RuleFromJsRule_tagged(3) [OF assms(1,2)] wrap_members_def assms(3))
  from RuleFromJsRule_failure_raises [of ext failing] assms(5) have "errors \<noteq> []"
    by simp
  with result show ?thesis by (simp add: surfaced_def)
qed

lemma rules_loop_built:
  assumes "list_all (\<lambda>name. builds ext (Get js_rules name)) names"
  shows "rules_loop ext js_rules names rs s =
           Returned
             (Some (rs @ map (\<lambda>name. (StringFromJsString ext name, built ext (Get js_rules name))) names),
              s @ concat (map (\<lambda>name. raised ext (Get js_rules name)) names))"
  using assms
proof (induction names arbitrary: rs s)
  case Nil
  show ?case by simp
next
  case (Cons name names)
  from Cons.prems have "builds ext (Get js_rules name)"
    and names: "list_all (\<lambda>name. builds ext (Get js_rules name)) names"
    by simp_all
  from buildsD [OF this(1), of s] obtain node where
    "built ext (Get js_rules name) = Some node"
    "RuleFromJsRule ext (Get js_rules name) s = Returned (Some node, s @ raised ext (Get js_rules name))"
    by blast
  then show ?case
    using Cons.IH [OF names, of "rs @ [(StringFromJsString ext name, Some node)]"
        "s @ raised ext (Get js_rules name)"]
    by simp
qed

lemma GrammarFromJsGrammar_rules_built:
  assumes "IsObject js_grammar" and "rules_build ext (ObjectGet js_grammar ''rules'')"
  shows "GrammarFromJsGrammar ext js_grammar s =
    (let rs = built_rules ext (ObjectGet js_grammar ''rules'');
         s' = s @ raised_by_rules ext (ObjectGet js_grammar ''rules'');
         js_ubiquitous_tokens = ObjectGet js_grammar ''ubiquitous''
     in
       if \<not> IsUndefined js_ubiquitous_tokens then
         (case js_ubiquitous_tokens of
            JsArray js_tokens \<Rightarrow>
              (case ubiquitous_loop ext js_tokens [] s' of
                 Undefined_Behaviour \<Rightarrow> Undefined_Behaviour
               | Returned (tokens, s'') \<Rightarrow>
                   Returned ((\<lparr>rules = rs, ubiquitous_tokens = tokens\<rparr>, True), s''))
          | _ \<Rightarrow>
              Returned ((\<lparr>rules = [], ubiquitous_tokens = []\<rparr>, False),
                s' @ [JsError TypeError ''Expected ubiquitous_tokens to be an array'' []]))
       else Returned ((\<lparr>rules = rs, ubiquitous_tokens = []\<rparr>, True), s'))"
proof -
  from assms(2) have obj: "IsObject (ObjectGet js_grammar ''rules'')"
    and all: "list_all (\<lambda>name. builds ext (Get (ObjectGet js_grammar ''rules'') name))
          (GetOwnPropertyNames (ObjectGet js_grammar ''rules''))"
    by (simp_all add: rules_build_def)
  show ?thesis
    unfolding GrammarFromJsGrammar_def
    by (simp add: assms(1) obj rules_loop_built [OF all] built_rules_def raised_by_rules_def
          Grammar_def NanThrowTypeError_def Let_def
        cong: js_value.case_cong outcome.case_cong)
qed

lemma Get_entry:
  "distinct (map fst entries) \<Longrightarrow> p \<in> set entries \<Longrightarrow>
     Get (JsObject entries) (JsString (fst p)) = snd p"
  by (simp add: map_of_is_SomeI [of entries "fst p" "snd p"])

lemma built_rules_object:
  assumes "distinct (map fst entries)"
  shows "built_rules ext (JsObject entries) =
           map (\<lambda>(key, js_rule). (c_str key, built ext js_rule)) entries"
proof -
  have "Get (JsObject entries) (JsString (fst p)) = snd p" if "p \<in> set entries" for p
    using assms that by (rule Get_entry)
  then show ?thesis
    by (auto simp: built_rules_def StringFromJsString_def split_beta)
qed

lemma rules_build_object:
  assumes "distinct (map fst entries)" and "list_all (\<lambda>(key, js_rule). builds ext js_rule) entries"
  shows "rules_build ext (JsObject entries)"
proof -
  have "Get (JsObject entries) (JsString (fst p)) = snd p" if "p \<in> set entries" for p
    using assms(1) that by (rule Get_entry)
  with assms(2) show ?thesis
    by (auto simp: rules_build_def list_all_iff split_beta)
qed

section \<open>Defined behaviour\<close>

lemma ubiquitous_loop_defined:
  assumes "list_all (\<lambda>js_token. RuleFromJsRule ext js_token [] \<noteq> Undefined_Behaviour) js_tokens"
  shows "\<exists>result s'. ubiquitous_loop ext js_tokens tokens s = Returned (result, s')"
  using assms
proof (induction js_tokens arbitrary: tokens s)
  case Nil
  show ?case by simp
next
  case (Cons js_token js_tokens)
  then obtain r errors where "RuleFromJsRule ext js_token [] = Returned (r, errors)"
    by (cases "RuleFromJsRule ext js_token []") auto
  then have "RuleFromJsRule ext js_token s = Returned (r, s @ errors)"
    by (subst RuleFromJsRule_appends) simp
  with Cons show ?case by simp
qed

section \<open>The spec's nodes\<close>

lemma c_str_id: "CHR 0x00 \<notin> set text \<Longrightarrow> c_str text = text"
  by (auto simp: c_str_def takeWhile_eq_all_conv)

lemma text_fieldD:
  "text_field props key = Some text \<Longrightarrow>
     StringFromJsString ext (ObjectGet (JsObject props) key) = text"
  by (auto simp: text_field_def StringFromJsString_def ObjectGet_def c_str_id
           split: option.splits js_value.splits if_splits)

lemma integer_fieldD:
  "integer_field props key = Some n \<Longrightarrow> IntegerValue ext (ObjectGet (JsObject props) key) = n"
  by (auto simp: integer_field_def IntegerValue_def ObjectGet_def
           split: option.splits js_value.splits if_splits)

lemma rule_node_tagged:
  assumes "map_of props ''type'' = Some (JsString tag)"
  shows "tag = ''BLANK'' \<Longrightarrow> rule_node (JsObject props) = Some Blank"
    and "tag \<in> text_tags \<Longrightarrow>
      rule_node (JsObject props) = map_option (text_node tag) (text_field props (text_key tag))"
    and "tag \<in> composite_tags \<Longrightarrow>
      rule_node (JsObject props) =
        (case map_of props ''members'' of
           Some (JsArray members) \<Rightarrow>
             if list_all (\<lambda>member. rule_node member \<noteq> None) members
             then Some (composite_node tag (map rule_node members))
             else None
         | _ \<Rightarrow> None)"
    and "tag \<in> single_child_tags \<Longrightarrow>
      rule_node (JsObject props) =
        (case map_of props ''value'' of
           Some child \<Rightarrow>
             (case rule_node child of
                Some node \<Rightarrow> Some (single_child_node tag (Some node))
              | None \<Rightarrow> None)
         | None \<Rightarrow> None)"
    and "tag \<in> precedence_tags \<Longrightarrow>
      rule_node (JsObject props) =
        (case map_of props ''rule'' of
           Some child \<Rightarrow>
             (case (integer_field props ''value'', rule_node child) of
                (Some level, Some node) \<Rightarrow> Some (precedence_node tag level (Some node))
              | _ \<Rightarrow> None)
         | None \<Rightarrow> None)"
    and "tag \<notin> known_tags \<Longrightarrow> rule_node (JsObject props) = None"
  by (subst rule_node.simps, simp add: assms tags_disjoint known_tags_def)+

lemma rule_node_untyped:
  "\<forall>tag. map_of props ''type'' \<noteq> Some (JsString tag) \<Longrightarrow> rule_node (JsObject props) = None"
  by (subst rule_node.simps) (simp split: option.splits js_value.splits)

lemma rule_node_no_object:
  "\<forall>props. descriptor \<noteq> JsObject props \<Longrightarrow> rule_node descriptor = None"
  by (subst rule_node.simps) (simp split: js_value.splits)

lemma rule_node_typed:
  assumes "rule_node descriptor = Some r"
  obtains props tag where "descriptor = JsObject props" "map_of props ''type'' = Some (JsString tag)"
    "tag \<in> known_tags"
  using assms rule_node_tagged(6) rule_node_untyped rule_node_no_object
  by (metis option.distinct(1))

lemma map_known_nodes:
  "list_all (\<lambda>member. rule_node member \<noteq> None) elems \<Longrightarrow>
     map (\<lambda>m. Some (the (rule_node m))) elems = map rule_node elems"
  by (induction elems) auto

section \<open>Failures that are not propagated\<close>

text \<open>
  C1. A rule of type \<open>ERROR\<close>, \<open>REPEAT\<close>, \<open>REPEAT1\<close> or \<open>TOKEN\<close> whose \<open>value\<close> fails to
  build should produce no rule and propagate the failure. The \<open>TOKEN\<close> branch tests its
  child for the null pointer; the branches of \<open>ERROR\<close>, \<open>REPEAT\<close> and \<open>REPEAT1\<close> pass the
  child to the constructor untested. With a child of the unknown type \<open>FOO\<close>, each of the
  three returns a node around the null pointer, next to the scheduled exception.
\<close>

theorem C1_wraps_failed_child:
  "RuleFromJsRule ext
     (JsObject [(''type'', JsString ''ERROR''), (''value'', JsObject [(''type'', JsString ''FOO'')])]) []
     = Returned (Some (ErrorRecovery None), [JsError Error ''Unexpected rule type: FOO'' []])
   \<and> RuleFromJsRule ext
     (JsObject [(''type'', JsString ''REPEAT''), (''value'', JsObject [(''type'', JsString ''FOO'')])]) []
     = Returned (Some (Repeat None), [JsError Error ''Unexpected rule type: FOO'' []])
   \<and> RuleFromJsRule ext
     (JsObject [(''type'', JsString ''REPEAT1''), (''value'', JsObject [(''type'', JsString ''FOO'')])]) []
     = Returned (Some (Repeat1 None), [JsError Error ''Unexpected rule type: FOO'' []])"
  by (simp add: eval_simps)

text \<open>
  C2. A grammar with a ubiquitous token that fails to build should fail as a whole. The
  loop over \<open>ubiquitous\<close> pushes every result, null pointers included, and never returns
  early, unlike the loop over \<open>rules\<close>. With the tokens \<open>FOO\<close> (unknown) and \<open>BLANK\<close> the
  function reports success, its grammar holds the null pointer and the token built after
  it, and \<open>Compile\<close> hands that grammar to the compiler.
\<close>

theorem C2_ubiquitous_failure_ignored:
  "GrammarFromJsGrammar ext
     (grammar_with_ubiquitous
        (JsArray [JsObject [(''type'', JsString ''FOO'')], JsObject [(''type'', JsString ''BLANK'')]])) []
     = Returned
         ((\<lparr>rules = [(''a'', Some Blank)], ubiquitous_tokens = [None, Some Blank]\<rparr>, True),
          [JsError Error ''Unexpected rule type: FOO'' []])
   \<and> Compile accepting
     [grammar_with_ubiquitous
        (JsArray [JsObject [(''type'', JsString ''FOO'')], JsObject [(''type'', JsString ''BLANK'')]])]
     = Returned
         \<lparr>return_value = JsString ''parser'',
          exceptions = [JsError Error ''Unexpected rule type: FOO'' []],
          compiler_calls =
            [(\<lparr>rules = [(''a'', Some Blank)], ubiquitous_tokens = [None, Some Blank]\<rparr>, ''g'')]\<rparr>"
  by (simp add: grammar_with_ubiquitous_def eval_simps)

text \<open>
  C3. A grammar whose \<open>name\<close> is missing or no string should raise a validation error
  and never reach the compiler. \<open>Compile\<close> schedules the error and does not return: for
  a grammar without \<open>name\<close> it goes on to assemble the grammar and calls the compiler,
  with the name that the conversion of \<open>undefined\<close> gives.
\<close>

theorem C3_compiler_called_without_name:
  "Compile accepting
     [JsObject [(''rules'', JsObject [(''a'', JsObject [(''type'', JsString ''BLANK'')])])]]
     = Returned
         \<lparr>return_value = JsString ''parser'',
          exceptions = [JsError TypeError ''Expected grammar name to be a string'' []],
          compiler_calls = [(\<lparr>rules = [(''a'', Some Blank)], ubiquitous_tokens = []\<rparr>, ''undefined'')]\<rparr>"
  by (simp add: eval_simps)

section \<open>Validation of fields\<close>

text \<open>
  C4, as amended. The builder checks one kind of field: the child of a single-child rule
  (\<open>value\<close>) and of a precedence rule (\<open>rule\<close>) goes through the builder's own test for an
  object, so a child that is missing or no object raises the type error
  \<open>Expected rule to be an object\<close>, and \<open>TOKEN\<close> and the precedence rules then yield no
  rule. The text field of \<open>STRING\<close>, \<open>PATTERN\<close> and \<open>SYMBOL\<close> and the \<open>value\<close> of a
  precedence rule are not checked: a field that is missing or holds a primitive value of
  any kind is converted, to a string or to an integer, and the rule is built with that
  text or precedence, without an exception for the field.
\<close>

theorem C4_child_fields_checked:
  assumes "rule_type js_rule = Some t"
  shows
    "((t \<in> single_child_tags \<and> \<not> IsObject (ObjectGet js_rule ''value'')
       \<or> t \<in> precedence_tags \<and> \<not> IsObject (ObjectGet js_rule ''rule''))
      \<longrightarrow> (\<exists>r. RuleFromJsRule ext js_rule s =
                 Returned (r, s @ [JsError TypeError ''Expected rule to be an object'' []])
               \<and> (t = ''TOKEN'' \<or> t \<in> precedence_tags \<longrightarrow> r = None)))
     \<and> (t \<in> text_tags \<and> \<not> IsObject (ObjectGet js_rule (text_key t)) \<longrightarrow>
          RuleFromJsRule ext js_rule s =
            Returned
              (Some (text_node t (StringFromJsString ext (ObjectGet js_rule (text_key t)))), s))
     \<and> (\<forall>child s'.
          t \<in> precedence_tags \<and> \<not> IsObject (ObjectGet js_rule ''value'')
          \<and> RuleFromJsRule ext (ObjectGet js_rule ''rule'') s = Returned (Some child, s') \<longrightarrow>
          RuleFromJsRule ext js_rule s =
            Returned
              (Some (precedence_node t (IntegerValue ext (ObjectGet js_rule ''value'')) (Some child)),
               s'))"
proof (intro conjI impI allI)
  assume "t \<in> single_child_tags \<and> \<not> IsObject (ObjectGet js_rule ''value'')
    \<or> t \<in> precedence_tags \<and> \<not> IsObject (ObjectGet js_rule ''rule'')"
  then show "\<exists>r. RuleFromJsRule ext js_rule s =
        Returned (r, s @ [JsError TypeError ''Expected rule to be an object'' []])
      \<and> (t = ''TOKEN'' \<or> t \<in> precedence_tags \<longrightarrow> r = None)"
  proof (elim disjE conjE)
    assume "t \<in> single_child_tags" and "\<not> IsObject (ObjectGet js_rule ''value'')"
    then show ?thesis
      using tags_disjoint(4) [of t]
      by (auto simp: RuleFromJsRule_tagged(4) [OF assms] RuleFromJsRule_no_object
            wrap_child_def wrap_tested_def)
  next
    assume "t \<in> precedence_tags" and "\<not> IsObject (ObjectGet js_rule ''rule'')"
    then show ?thesis
      by (simp add: RuleFromJsRule_tagged(5) [OF assms] RuleFromJsRule_no_object wrap_tested_def)
  qed
next
  assume "t \<in> text_tags \<and> \<not> IsObject (ObjectGet js_rule (text_key t))"
  then have "t \<in> text_tags" ..
  then show "RuleFromJsRule ext js_rule s =
      Returned (Some (text_node t (StringFromJsString ext (ObjectGet js_rule (text_key t)))), s)"
    by (rule RuleFromJsRule_tagged(2) [OF assms])
next
  fix child s'
  assume "t \<in> precedence_tags \<and> \<not> IsObject (ObjectGet js_rule ''value'')
    \<and> RuleFromJsRule ext (ObjectGet js_rule ''rule'') s = Returned (Some child, s')"
  then show "RuleFromJsRule ext js_rule s =
      Returned
        (Some (precedence_node t (IntegerValue ext (ObjectGet js_rule ''value'')) (Some child)), s')"
    by (simp add: RuleFromJsRule_tagged(5) [OF assms] wrap_tested_def)
qed

theorem C4_child_fields_checked_witness:
  "rule_type (JsObject [(''type'', JsString ''TOKEN'')]) = Some ''TOKEN''
   \<and> ''TOKEN'' \<in> single_child_tags
   \<and> \<not> IsObject (ObjectGet (JsObject [(''type'', JsString ''TOKEN'')]) ''value'')
   \<and> RuleFromJsRule accepting (JsObject [(''type'', JsString ''TOKEN'')]) [] =
       Returned (None, [JsError TypeError ''Expected rule to be an object'' []])
   \<and> rule_type (JsObject [(''type'', JsString ''SYMBOL''), (''name'', JsNull)]) = Some ''SYMBOL''
   \<and> ''SYMBOL'' \<in> text_tags
   \<and> \<not> IsObject (ObjectGet (JsObject [(''type'', JsString ''SYMBOL''), (''name'', JsNull)]) ''name'')
   \<and> RuleFromJsRule accepting (JsObject [(''type'', JsString ''SYMBOL''), (''name'', JsNull)]) [] =
       Returned (Some (Symbol ''null''), [])
   \<and> rule_type prec_with_null_value = Some ''PREC_LEFT''
   \<and> ''PREC_LEFT'' \<in> precedence_tags
   \<and> \<not> IsObject (ObjectGet prec_with_null_value ''value'')
   \<and> RuleFromJsRule accepting (ObjectGet prec_with_null_value ''rule'') [] = Returned (Some Blank, [])
   \<and> RuleFromJsRule accepting prec_with_null_value [] =
       Returned (Some (PrecedenceLeft 0 (Some Blank)), [])"
proof -
  have 1: "rule_type (JsObject [(''type'', JsString ''TOKEN'')]) = Some ''TOKEN''"
    and 2: "''TOKEN'' \<in> single_child_tags"
    and 3: "\<not> IsObject (ObjectGet (JsObject [(''type'', JsString ''TOKEN'')]) ''value'')"
    and 4: "rule_type (JsObject [(''type'', JsString ''SYMBOL''), (''name'', JsNull)]) = Some ''SYMBOL''"
    and 5: "''SYMBOL'' \<in> text_tags"
    and 6: "\<not> IsObject (ObjectGet (JsObject [(''type'', JsString ''SYMBOL''), (''name'', JsNull)]) ''name'')"
    and 7: "rule_type prec_with_null_value = Some ''PREC_LEFT''"
    and 8: "''PREC_LEFT'' \<in> precedence_tags"
    and 9: "\<not> IsObject (ObjectGet prec_with_null_value ''value'')"
    by (simp_all add: rule_type_def ObjectGet_def c_str_def single_child_tags_def text_tags_def
          precedence_tags_def text_key_def prec_with_null_value_def)
  have 10: "RuleFromJsRule accepting (ObjectGet prec_with_null_value ''rule'') [] = Returned (Some Blank, [])"
    by (simp add: prec_with_null_value_def eval_simps)
  from C4_child_fields_checked [OF 1, of accepting "[]"] 2 3
  have 11: "RuleFromJsRule accepting (JsObject [(''type'', JsString ''TOKEN'')]) [] =
       Returned (None, [JsError TypeError ''Expected rule to be an object'' []])"
    by auto
  from C4_child_fields_checked [OF 4, of accepting "[]"] 5 6
  have 12: "RuleFromJsRule accepting (JsObject [(''type'', JsString ''SYMBOL''), (''name'', JsNull)]) [] =
       Returned (Some (Symbol ''null''), [])"
    by (simp add: text_node_def text_key_def StringFromJsString_def ObjectGet_def accepting_def
          engine_conversion_def c_str_def)
  from C4_child_fields_checked [OF 7, of accepting "[]", THEN conjunct2, THEN conjunct2,
      rule_format, of Blank "[]"] 8 9 10
  have 13: "RuleFromJsRule accepting prec_with_null_value [] =
       Returned (Some (PrecedenceLeft 0 (Some Blank)), [])"
    by (simp add: precedence_node_def IntegerValue_def prec_with_null_value_def ObjectGet_def
          accepting_def)
  from 1 2 3 4 5 6 7 8 9 10 11 12 13 show ?thesis by blast
qed

text \<open>
  C4 as stated fails: a \<open>STRING\<close> rule without \<open>value\<close> raises nothing and yields the
  rule of the string \<open>undefined\<close>, and a \<open>PREC\<close> rule without \<open>value\<close> raises nothing and
  yields the rule of precedence 0.
\<close>

theorem C4_unchecked_fields_counterexample:
  "rule_type (JsObject [(''type'', JsString ''STRING'')]) = Some ''STRING''
   \<and> ObjectGet (JsObject [(''type'', JsString ''STRING'')]) ''value'' = JsUndefined
   \<and> RuleFromJsRule accepting (JsObject [(''type'', JsString ''STRING'')]) [] =
       Returned (Some (StringLiteral ''undefined''), [])
   \<and> RuleFromJsRule accepting
       (JsObject [(''type'', JsString ''PREC''), (''rule'', JsObject [(''type'', JsString ''BLANK'')])]) [] =
       Returned (Some (Precedence 0 (Some Blank)), [])"
  by (simp add: eval_simps rule_type_def IntegerValue_def)

section \<open>Well-formed descriptors\<close>

text \<open>
  C5, as amended. For every well-formed descriptor of the thirteen tags whose texts hold
  no NUL character and whose precedence is an integer of the 64-bit range, the builder
  raises nothing and returns the node that corresponds to the descriptor: the members of
  a \<open>SEQ\<close> or \<open>CHOICE\<close> in their order, \<open>BLANK\<close> whatever else the object holds.
\<close>

theorem C5_builds_corresponding_node:
  assumes "rule_node descriptor = Some node"
  shows "RuleFromJsRule ext descriptor s = Returned (Some node, s)"
  using assms
proof (induction descriptor arbitrary: node s rule: measure_induct_rule [of size])
  case (less descriptor)
  from less.prems obtain props tag where
    d: "descriptor = JsObject props" and tag: "map_of props ''type'' = Some (JsString tag)"
    and known: "tag \<in> known_tags"
    by (rule rule_node_typed)
  have typed: "rule_type (JsObject props) = Some tag"
    using tag known by (rule rule_type_known)
  note build = RuleFromJsRule_tagged [OF typed, of ext s]
  note spec = rule_node_tagged [OF tag]
  have node: "rule_node (JsObject props) = Some node"
    using less.prems d by simp
  have child: "RuleFromJsRule ext (ObjectGet (JsObject props) key) s' = Returned (Some c, s')"
    if "map_of props key = Some v" "rule_node v = Some c" for key v c s'
    using that less.IH [of v c s'] size_property [of props key v]
    by (simp add: d ObjectGet_property)
  have members:
    "wrap_members mk ext (ObjectGet (JsObject props) ''members'') s =
       Returned (Some (mk (map rule_node elems)), s)"
    if elems: "map_of props ''members'' = Some (JsArray elems)"
      and all: "list_all (\<lambda>member. rule_node member \<noteq> None) elems" for mk elems
  proof -
    have "RuleFromJsRule ext m s' = Returned (Some (the (rule_node m)), s')"
      if "m \<in> set elems" for m s'
    proof -
      from all that obtain c where "rule_node m = Some c"
        by (auto simp: list_all_iff)
      moreover have "size m < size descriptor"
        using size_property_member [OF elems that] d by simp
      ultimately show ?thesis
        using less.IH [of m c s'] by simp
    qed
    then have "members_loop ext elems [] s =
        Returned (Some ([] @ map (\<lambda>m. Some (the (rule_node m))) elems), s)"
      by (rule members_loop_built)
    then show ?thesis
      using elems all by (simp add: wrap_members_def ObjectGet_property map_known_nodes)
  qed
  from known consider
      (blank_tag) "tag = ''BLANK''"
    | (text_tag) "tag \<in> text_tags"
    | (composite_tag) "tag \<in> composite_tags"
    | (single_child_tag) "tag \<in> single_child_tags"
    | (precedence_tag) "tag \<in> precedence_tags"
    unfolding known_tags_def Un_iff insert_iff empty_iff by metis
  then show ?case
  proof cases
    case blank_tag
    from node spec(1) [OF blank_tag] have "node = Blank" by simp
    with build(1) [OF blank_tag] d show ?thesis by simp
  next
    case text_tag
    from node spec(2) [OF text_tag] obtain literal where
      "text_field props (text_key tag) = Some literal" and "node = text_node tag literal"
      by auto
    with build(2) [OF text_tag] d text_fieldD [of props "text_key tag" literal ext]
    show ?thesis by simp
  next
    case composite_tag
    from node spec(3) [OF composite_tag] obtain elems where
      elems: "map_of props ''members'' = Some (JsArray elems)"
      and all: "list_all (\<lambda>member. rule_node member \<noteq> None) elems"
      and mk: "node = composite_node tag (map rule_node elems)"
      by (auto split: option.splits js_value.splits if_splits)
    from build(3) [OF composite_tag] d mk members [OF elems all] show ?thesis
      by simp
  next
    case single_child_tag
    from node spec(4) [OF single_child_tag] obtain v c where
      v: "map_of props ''value'' = Some v" and c: "rule_node v = Some c"
      and mk: "node = single_child_node tag (Some c)"
      by (auto split: option.splits)
    from build(4) [OF single_child_tag] d mk child [OF v c, of s] show ?thesis
      by (simp add: wrap_child_def wrap_tested_def single_child_node_def)
  next
    case precedence_tag
    from node spec(5) [OF precedence_tag] obtain level v c where
      level: "integer_field props ''value'' = Some level"
      and v: "map_of props ''rule'' = Some v" and c: "rule_node v = Some c"
      and mk: "node = precedence_node tag level (Some c)"
      by (auto split: option.splits)
    from build(5) [OF precedence_tag] d mk child [OF v c, of s] integer_fieldD [OF level, of ext]
    show ?thesis
      by (simp add: wrap_tested_def)
  qed
qed

theorem C5_builds_corresponding_node_witness:
  "rule_node string_example = Some (StringLiteral ''foo'')
   \<and> RuleFromJsRule accepting string_example [] = Returned (Some (StringLiteral ''foo''), [])
   \<and> rule_node sequence_example = Some (Sequence [Some (StringLiteral ''a''), Some Blank])
   \<and> RuleFromJsRule accepting sequence_example [] =
       Returned (Some (Sequence [Some (StringLiteral ''a''), Some Blank]), [])
   \<and> rule_node prec_left_example = Some (PrecedenceLeft 2 (Some (Symbol ''expr'')))
   \<and> RuleFromJsRule accepting prec_left_example [] =
       Returned (Some (PrecedenceLeft 2 (Some (Symbol ''expr''))), [])
   \<and> rule_node blank_example = Some Blank
   \<and> RuleFromJsRule accepting blank_example [] = Returned (Some Blank, [])"
proof -
  have 1: "rule_node string_example = Some (StringLiteral ''foo'')"
    by (simp add: string_example_def spec_simps)
  have 2: "rule_node sequence_example = Some (Sequence [Some (StringLiteral ''a''), Some Blank])"
    by (simp add: sequence_example_def spec_simps)
  have 3: "rule_node prec_left_example = Some (PrecedenceLeft 2 (Some (Symbol ''expr'')))"
    by (simp add: prec_left_example_def spec_simps)
  have 4: "rule_node blank_example = Some Blank"
    by (simp add: blank_example_def spec_simps)
  from 1 2 3 4
    C5_builds_corresponding_node [OF 1, of accepting "[]"]
    C5_builds_corresponding_node [OF 2, of accepting "[]"]
    C5_builds_corresponding_node [OF 3, of accepting "[]"]
    C5_builds_corresponding_node [OF 4, of accepting "[]"]
  show ?thesis by simp
qed

text \<open>
  C5 as stated fails: the text of a rule passes through a C string, so the \<open>STRING\<close> rule
  of a value with a NUL character holds only what precedes the NUL.
\<close>

theorem C5_text_cut_at_nul_counterexample:
  "RuleFromJsRule accepting
     (JsObject [(''type'', JsString ''STRING''), (''value'', JsString [CHR ''a'', CHR 0x00, CHR ''b''])]) []
     = Returned (Some (StringLiteral ''a''), [])
   \<and> RuleFromJsRule accepting
     (JsObject [(''type'', JsString ''STRING''), (''value'', JsString [CHR ''a'', CHR 0x00, CHR ''b''])]) []
     \<noteq> Returned (Some (StringLiteral [CHR ''a'', CHR 0x00, CHR ''b'']), [])"
  by (simp add: eval_simps)

section \<open>Composite rules\<close>

text \<open>
  C6. In a \<open>SEQ\<close> or \<open>CHOICE\<close> rule the first member that fails to build should end the
  rule: no rule, the error of that member surfaced, the members after it not built. The
  loop ends the rule at a member for which the builder returns the null pointer (lemma
  \<open>composite_abort_on_null\<close>), but a member of type \<open>ERROR\<close>, \<open>REPEAT\<close> or \<open>REPEAT1\<close>
  whose own child fails comes back as a node around the null pointer, so the loop goes on
  after it. With the members \<open>REPEAT\<close> of the unknown type \<open>FOO\<close> and \<open>BLANK\<close>, the
  \<open>SEQ\<close> is returned with both members next to the scheduled exception, and likewise
  the \<open>CHOICE\<close> with \<open>ERROR\<close>; with the number 5 as second member, the second member is
  built, and the exception scheduled last, which the caller is thrown, is the second
  member's.
\<close>

theorem C6_failed_member_not_aborted:
  "RuleFromJsRule ext
     (JsObject
        [(''type'', JsString ''SEQ''),
         (''members'',
            JsArray
              [JsObject [(''type'', JsString ''REPEAT''), (''value'', JsObject [(''type'', JsString ''FOO'')])],
               JsObject [(''type'', JsString ''BLANK'')]])]) []
     = Returned
         (Some (Sequence [Some (Repeat None), Some Blank]),
          [JsError Error ''Unexpected rule type: FOO'' []])
   \<and> RuleFromJsRule ext
     (JsObject
        [(''type'', JsString ''CHOICE''),
         (''members'',
            JsArray
              [JsObject [(''type'', JsString ''ERROR''), (''value'', JsObject [(''type'', JsString ''FOO'')])],
               JsObject [(''type'', JsString ''BLANK'')]])]) []
     = Returned
         (Some (Choice [Some (ErrorRecovery None), Some Blank]),
          [JsError Error ''Unexpected rule type: FOO'' []])
   \<and> RuleFromJsRule ext
     (JsObject
        [(''type'', JsString ''SEQ''),
         (''members'',
            JsArray
              [JsObject [(''type'', JsString ''REPEAT''), (''value'', JsObject [(''type'', JsString ''FOO'')])],
               JsNumber 5])]) []
     = Returned
         (None,
          [JsError Error ''Unexpected rule type: FOO'' [],
           JsError TypeError ''Expected rule to be an object'' []])
   \<and> surfaced
       [JsError Error ''Unexpected rule type: FOO'' [],
        JsError TypeError ''Expected rule to be an object'' []]
     = Some (JsError TypeError ''Expected rule to be an object'' [])"
  by (simp add: eval_simps surfaced_def)

section \<open>Grammar assembly\<close>

text \<open>
  C7, as amended. For a grammar object whose rules all build: when \<open>ubiquitous\<close> is
  absent, or \<open>undefined\<close>, assembly succeeds with an empty list of ubiquitous tokens and
  raises nothing of its own; when it holds any other value that is no array, assembly
  fails with the type error \<open>Expected ubiquitous_tokens to be an array\<close>.
\<close>

theorem C7_ubiquitous_optional:
  assumes "IsObject js_grammar" and "rules_build ext (ObjectGet js_grammar ''rules'')"
  shows
    "(IsUndefined (ObjectGet js_grammar ''ubiquitous'') \<longrightarrow>
        GrammarFromJsGrammar ext js_grammar s =
          Returned
            ((\<lparr>rules = built_rules ext (ObjectGet js_grammar ''rules''), ubiquitous_tokens = []\<rparr>, True),
             s @ raised_by_rules ext (ObjectGet js_grammar ''rules'')))
     \<and> (\<not> IsUndefined (ObjectGet js_grammar ''ubiquitous'')
          \<and> \<not> IsArray (ObjectGet js_grammar ''ubiquitous'') \<longrightarrow>
        GrammarFromJsGrammar ext js_grammar s =
          Returned
            ((\<lparr>rules = [], ubiquitous_tokens = []\<rparr>, False),
             s @ raised_by_rules ext (ObjectGet js_grammar ''rules'')
               @ [JsError TypeError ''Expected ubiquitous_tokens to be an array'' []]))"
  by (cases "ObjectGet js_grammar ''ubiquitous''")
     (simp_all add: GrammarFromJsGrammar_rules_built [OF assms] Let_def)

theorem C7_ubiquitous_optional_witness:
  "IsObject grammar_without_ubiquitous
   \<and> rules_build accepting (ObjectGet grammar_without_ubiquitous ''rules'')
   \<and> IsUndefined (ObjectGet grammar_without_ubiquitous ''ubiquitous'')
   \<and> GrammarFromJsGrammar accepting grammar_without_ubiquitous [] =
       Returned ((\<lparr>rules = [(''a'', Some Blank)], ubiquitous_tokens = []\<rparr>, True), [])
   \<and> IsObject (grammar_with_ubiquitous JsNull)
   \<and> rules_build accepting (ObjectGet (grammar_with_ubiquitous JsNull) ''rules'')
   \<and> \<not> IsUndefined (ObjectGet (grammar_with_ubiquitous JsNull) ''ubiquitous'')
   \<and> \<not> IsArray (ObjectGet (grammar_with_ubiquitous JsNull) ''ubiquitous'')
   \<and> GrammarFromJsGrammar accepting (grammar_with_ubiquitous JsNull) [] =
       Returned ((\<lparr>rules = [], ubiquitous_tokens = []\<rparr>, False),
         [JsError TypeError ''Expected ubiquitous_tokens to be an array'' []])"
proof -
  have 1: "IsObject grammar_without_ubiquitous"
    and 2: "rules_build accepting (ObjectGet grammar_without_ubiquitous ''rules'')"
    and 3: "IsUndefined (ObjectGet grammar_without_ubiquitous ''ubiquitous'')"
    by (simp_all add: grammar_simps eval_simps)
  have 4: "IsObject (grammar_with_ubiquitous JsNull)"
    and 5: "rules_build accepting (ObjectGet (grammar_with_ubiquitous JsNull) ''rules'')"
    and 6: "\<not> IsUndefined (ObjectGet (grammar_with_ubiquitous JsNull) ''ubiquitous'')"
    and 7: "\<not> IsArray (ObjectGet (grammar_with_ubiquitous JsNull) ''ubiquitous'')"
    by (simp_all add: grammar_simps eval_simps)
  have a: "built_rules accepting (ObjectGet grammar_without_ubiquitous ''rules'') = [(''a'', Some Blank)]"
    and b: "raised_by_rules accepting (ObjectGet grammar_without_ubiquitous ''rules'') = []"
    and c: "raised_by_rules accepting (ObjectGet (grammar_with_ubiquitous JsNull) ''rules'') = []"
    by (simp_all add: grammar_simps eval_simps)
  from C7_ubiquitous_optional [OF 1 2, of "[]"] 3 a b
  have 8: "GrammarFromJsGrammar accepting grammar_without_ubiquitous [] =
       Returned ((\<lparr>rules = [(''a'', Some Blank)], ubiquitous_tokens = []\<rparr>, True), [])"
    by simp
  from C7_ubiquitous_optional [OF 4 5, of "[]"] 6 7 c
  have 9: "GrammarFromJsGrammar accepting (grammar_with_ubiquitous JsNull) [] =
       Returned ((\<lparr>rules = [], ubiquitous_tokens = []\<rparr>, False),
         [JsError TypeError ''Expected ubiquitous_tokens to be an array'' []])"
    by simp
  from 1 2 3 4 5 6 7 8 9 show ?thesis by blast
qed

text \<open>
  C7 as stated fails: the message of the code is not the one the claim gives, and a
  field that is present with the value \<open>undefined\<close> is taken as absent.
\<close>

theorem C7_message_and_undefined_counterexample:
  "GrammarFromJsGrammar accepting (grammar_with_ubiquitous (JsNumber 5)) [] =
     Returned ((\<lparr>rules = [], ubiquitous_tokens = []\<rparr>, False),
       [JsError TypeError ''Expected ubiquitous_tokens to be an array'' []])
   \<and> ''Expected ubiquitous_tokens to be an array'' \<noteq> ''expected ubiquitous tokens to be an array''
   \<and> map_of [(''name'', JsString ''g''),
        (''rules'', JsObject [(''a'', JsObject [(''type'', JsString ''BLANK'')])]),
        (''ubiquitous'', JsUndefined)] ''ubiquitous'' = Some JsUndefined
   \<and> GrammarFromJsGrammar accepting (grammar_with_ubiquitous JsUndefined) [] =
     Returned ((\<lparr>rules = [(''a'', Some Blank)], ubiquitous_tokens = []\<rparr>, True), [])
   \<and> GrammarFromJsGrammar accepting
       (JsObject
          [(''name'', JsString ''g''),
           (''rules'', JsObject [(''a'', JsObject [(''type'', JsString ''FOO'')])]),
           (''ubiquitous'', JsNumber 5)]) [] =
     Returned ((\<lparr>rules = [], ubiquitous_tokens = []\<rparr>, False),
       [JsError Error ''Unexpected rule type: FOO'' []])"
  by (simp add: grammar_simps eval_simps)

text \<open>
  C8, as amended. For a \<open>rules\<close> object whose entries all build, every grammar that
  assembly returns lists the entries in their enumeration order, each key read as a C
  string (cut at its first NUL character, so a key without NUL is unchanged) and paired
  with its rule; and assembly does return one when \<open>ubiquitous\<close> is absent, or is an array
  of values on which the builder stays within defined behaviour.
\<close>

theorem C8_rule_order_preserved:
  assumes "IsObject js_grammar"
    and "ObjectGet js_grammar ''rules'' = JsObject entries"
    and "distinct (map fst entries)"
    and "list_all (\<lambda>(key, js_rule). builds ext js_rule) entries"
  shows
    "(\<forall>G s'. GrammarFromJsGrammar ext js_grammar s = Returned ((G, True), s') \<longrightarrow>
        rules G = map (\<lambda>(key, js_rule). (c_str key, built ext js_rule)) entries)
     \<and> (IsUndefined (ObjectGet js_grammar ''ubiquitous'') \<longrightarrow>
          (\<exists>s'. GrammarFromJsGrammar ext js_grammar s =
             Returned
               ((\<lparr>rules = map (\<lambda>(key, js_rule). (c_str key, built ext js_rule)) entries,
                  ubiquitous_tokens = []\<rparr>, True), s')))
     \<and> (\<forall>js_tokens.
          ObjectGet js_grammar ''ubiquitous'' = JsArray js_tokens
          \<and> list_all (\<lambda>js_token. RuleFromJsRule ext js_token [] \<noteq> Undefined_Behaviour) js_tokens \<longrightarrow>
          (\<exists>tokens s'. GrammarFromJsGrammar ext js_grammar s =
             Returned
               ((\<lparr>rules = map (\<lambda>(key, js_rule). (c_str key, built ext js_rule)) entries,
                  ubiquitous_tokens = tokens\<rparr>, True), s')))"
proof -
  let ?expected = "map (\<lambda>(key, js_rule). (c_str key, built ext js_rule)) entries"
  have build: "rules_build ext (ObjectGet js_grammar ''rules'')"
    using assms(2-4) by (simp add: rules_build_object)
  have expected: "built_rules ext (ObjectGet js_grammar ''rules'') = ?expected"
    using assms(2,3) by (simp add: built_rules_object)
  note assembled = GrammarFromJsGrammar_rules_built [OF assms(1) build, of s, unfolded expected]
  have 1: "rules G = ?expected" if "GrammarFromJsGrammar ext js_grammar s = Returned ((G, True), s')" for G s'
    using that unfolding assembled
    by (auto simp: Let_def split: if_splits js_value.splits outcome.splits)
  have 2: "\<exists>s'. GrammarFromJsGrammar ext js_grammar s =
      Returned ((\<lparr>rules = ?expected, ubiquitous_tokens = []\<rparr>, True), s')"
    if "IsUndefined (ObjectGet js_grammar ''ubiquitous'')"
    using that unfolding assembled by (simp add: Let_def)
  have 3: "\<exists>tokens s'. GrammarFromJsGrammar ext js_grammar s =
      Returned ((\<lparr>rules = ?expected, ubiquitous_tokens = tokens\<rparr>, True), s')"
    if "ObjectGet js_grammar ''ubiquitous'' = JsArray js_tokens"
      and "list_all (\<lambda>js_token. RuleFromJsRule ext js_token [] \<noteq> Undefined_Behaviour) js_tokens"
    for js_tokens
  proof -
    from ubiquitous_loop_defined [OF that(2)] obtain tokens s' where
      "ubiquitous_loop ext js_tokens [] (s @ raised_by_rules ext (ObjectGet js_grammar ''rules'')) =
         Returned (tokens, s')"
      by blast
    with that(1) show ?thesis
      unfolding assembled by (simp add: Let_def)
  qed
  from 1 2 3 show ?thesis by blast
qed

theorem C8_rule_order_preserved_witness:
  "IsObject ordered_grammar
   \<and> ObjectGet ordered_grammar ''rules'' = JsObject ordered_rules
   \<and> distinct (map fst ordered_rules)
   \<and> list_all (\<lambda>(key, js_rule). builds accepting js_rule) ordered_rules
   \<and> IsUndefined (ObjectGet ordered_grammar ''ubiquitous'')
   \<and> (\<exists>s'. GrammarFromJsGrammar accepting ordered_grammar [] =
         Returned
           ((\<lparr>rules = [(''b'', Some Blank), (''a'', Some (StringLiteral ''x'')), (''c'', Some (Symbol ''b''))],
              ubiquitous_tokens = []\<rparr>, True), s'))"
proof -
  have 1: "IsObject ordered_grammar"
    and 2: "ObjectGet ordered_grammar ''rules'' = JsObject ordered_rules"
    and 3: "distinct (map fst ordered_rules)"
    and 4: "list_all (\<lambda>(key, js_rule). builds accepting js_rule) ordered_rules"
    and 5: "IsUndefined (ObjectGet ordered_grammar ''ubiquitous'')"
    by (simp_all add: ordered_grammar_def ordered_rules_def builds_def eval_simps)
  have 6: "map (\<lambda>(key, js_rule). (c_str key, built accepting js_rule)) ordered_rules =
      [(''b'', Some Blank), (''a'', Some (StringLiteral ''x'')), (''c'', Some (Symbol ''b''))]"
    by (simp add: ordered_rules_def built_def eval_simps)
  from C8_rule_order_preserved [OF 1 2 3 4, of "[]"] 5
  have "\<exists>s'. GrammarFromJsGrammar accepting ordered_grammar [] =
         Returned
           ((\<lparr>rules = [(''b'', Some Blank), (''a'', Some (StringLiteral ''x'')), (''c'', Some (Symbol ''b''))],
              ubiquitous_tokens = []\<rparr>, True), s')"
    unfolding 6 by blast
  with 1 2 3 4 5 show ?thesis by blast
qed

text \<open>
  C8 as stated fails: a key with a NUL character is not the name of its rule.
\<close>

theorem C8_key_cut_at_nul_counterexample:
  "GrammarFromJsGrammar accepting
     (JsObject
        [(''name'', JsString ''g''),
         (''rules'', JsObject [([CHR ''a'', CHR 0x00, CHR ''b''], JsObject [(''type'', JsString ''BLANK'')])])]) []
     = Returned ((\<lparr>rules = [(''a'', Some Blank)], ubiquitous_tokens = []\<rparr>, True), [])
   \<and> ''a'' \<noteq> [CHR ''a'', CHR 0x00, CHR ''b'']"
  by (simp add: eval_simps)

section \<open>Errors of the compiler\<close>

text \<open>
  C9, as amended. In every call in which the compiler was run and rejected the grammar,
  the exception the caller is thrown is an error with the compiler's message, read as a C
  string (cut at its first NUL character, so a message without NUL is unchanged), and the
  property \<open>isGrammarError\<close> set to \<open>true\<close>, and no exception scheduled before it in the
  call (each a validation error) carries that property; in a call in which the compiler
  was not run, or accepted the grammar, no exception carries it.
\<close>

theorem C9_compiler_error_tagged:
  assumes "Compile ext args = Returned result"
  shows
    "(\<forall>grammar name error.
        compiler_calls result = [(grammar, name)] \<and> snd (compile ext grammar name) = Some error \<longrightarrow>
        surfaced (exceptions result) =
          Some (JsError Error (c_str (message error)) [(''isGrammarError'', JsBoolean True)])
        \<and> is_grammar_error (last (exceptions result))
        \<and> list_all (\<lambda>e. \<not> is_grammar_error e) (butlast (exceptions result)))
     \<and> ((\<forall>grammar name. (grammar, name) \<in> set (compiler_calls result) \<longrightarrow>
            snd (compile ext grammar name) = None) \<longrightarrow>
          list_all (\<lambda>e. \<not> is_grammar_error e) (exceptions result))"
proof -
  let ?js_grammar = "case args of [] \<Rightarrow> JsUndefined | arg # _ \<Rightarrow> arg"
  let ?js_name = "ObjectGet ?js_grammar ''name''"
  let ?name = "StringFromJsString ext ?js_name"
  let ?s1 = "if \<not> IsString ?js_name
             then NanThrowTypeError ''Expected grammar name to be a string'' [] else []"
  from assms have obj: "IsObject ?js_grammar"
    by (auto simp: Compile_def Let_def split: if_splits)
  from assms obj obtain G ok s2 where
    assembled: "GrammarFromJsGrammar ext ?js_grammar ?s1 = Returned ((G, ok), s2)"
    by (cases "GrammarFromJsGrammar ext ?js_grammar ?s1")
       (auto simp: Compile_def Let_def split: if_splits)
  from GrammarFromJsGrammar_extends [of ?s1 ext ?js_grammar] assembled
  obtain errors where "s2 = ?s1 @ errors" "validation_errors errors"
    by auto
  then have "validation_errors s2"
    by (simp add: NanThrowTypeError_def)
  then have untagged: "list_all (\<lambda>e. \<not> is_grammar_error e) s2"
    by (rule validation_errors_untagged)
  have failed: "exceptions result = s2" "compiler_calls result = []" if "\<not> ok"
    using assms obj assembled that by (auto simp: Compile_def Let_def split: if_splits)
  have called: "compiler_calls result = [(G, ?name)]" if ok
    using assms obj assembled that by (auto simp: Compile_def Let_def split: if_splits)
  have accepted: "exceptions result = s2" if ok "snd (compile ext G ?name) = None"
    using assms obj assembled that by (auto simp: Compile_def Let_def split: if_splits)
  have rejected: "exceptions result =
      s2 @ [JsError Error (c_str (message error)) [(''isGrammarError'', JsBoolean True)]]"
    if ok "snd (compile ext G ?name) = Some error" for error
    using assms obj assembled that
    by (auto simp: Compile_def Let_def NanThrowError_def NanError_def split: if_splits)
  have tagged: "is_grammar_error (JsError Error (c_str (message error)) [(''isGrammarError'', JsBoolean True)])"
    for error
    by (simp add: is_grammar_error_def)
  show ?thesis
  proof (intro conjI allI impI)
    fix grammar name error
    assume call: "compiler_calls result = [(grammar, name)] \<and> snd (compile ext grammar name) = Some error"
    with failed(2) have ok by auto
    with call called have "snd (compile ext G ?name) = Some error" by simp
    note exceptions = rejected [OF \<open>ok\<close> this]
    show "surfaced (exceptions result) =
        Some (JsError Error (c_str (message error)) [(''isGrammarError'', JsBoolean True)])"
      by (simp add: exceptions surfaced_def)
    show "is_grammar_error (last (exceptions result))"
      by (simp add: exceptions tagged)
    show "list_all (\<lambda>e. \<not> is_grammar_error e) (butlast (exceptions result))"
      by (simp add: exceptions untagged)
  next
    assume "\<forall>grammar name. (grammar, name) \<in> set (compiler_calls result) \<longrightarrow>
      snd (compile ext grammar name) = None"
    then have "exceptions result = s2"
      using failed(1) called accepted by (cases ok) auto
    with untagged show "list_all (\<lambda>e. \<not> is_grammar_error e) (exceptions result)"
      by simp
  qed
qed

theorem C9_compiler_error_tagged_witness:
  "Compile rejecting [grammar_without_ubiquitous] = Returned rejected_call
   \<and> compiler_calls rejected_call = [(\<lparr>rules = [(''a'', Some Blank)], ubiquitous_tokens = []\<rparr>, ''g'')]
   \<and> snd (compile rejecting \<lparr>rules = [(''a'', Some Blank)], ubiquitous_tokens = []\<rparr> ''g'') =
       Some (GrammarError ''Undefined rule'')
   \<and> surfaced (exceptions rejected_call) =
       Some (JsError Error ''Undefined rule'' [(''isGrammarError'', JsBoolean True)])
   \<and> is_grammar_error (last (exceptions rejected_call))
   \<and> Compile rejecting [grammar_with_ubiquitous JsNull] = Returned failed_call
   \<and> compiler_calls failed_call = []
   \<and> list_all (\<lambda>e. \<not> is_grammar_error e) (exceptions failed_call)"
proof -
  have 1: "Compile rejecting [grammar_without_ubiquitous] = Returned rejected_call"
    by (simp add: rejected_call_def grammar_without_ubiquitous_def eval_simps)
  have 2: "compiler_calls rejected_call =
      [(\<lparr>rules = [(''a'', Some Blank)], ubiquitous_tokens = []\<rparr>, ''g'')]"
    by (simp add: rejected_call_def)
  have 3: "snd (compile rejecting \<lparr>rules = [(''a'', Some Blank)], ubiquitous_tokens = []\<rparr> ''g'') =
       Some (GrammarError ''Undefined rule'')"
    by (simp add: rejecting_def)
  have 4: "Compile rejecting [grammar_with_ubiquitous JsNull] = Returned failed_call"
    by (simp add: failed_call_def grammar_with_ubiquitous_def eval_simps)
  have 5: "compiler_calls failed_call = []"
    by (simp add: failed_call_def)
  from C9_compiler_error_tagged [OF 1, THEN conjunct1, rule_format, OF conjI [OF 2 3]]
  have 6: "surfaced (exceptions rejected_call) =
       Some (JsError Error ''Undefined rule'' [(''isGrammarError'', JsBoolean True)])"
    and 7: "is_grammar_error (last (exceptions rejected_call))"
    by (simp_all add: c_str_def)
  from C9_compiler_error_tagged [OF 4, THEN conjunct2] 5
  have 8: "list_all (\<lambda>e. \<not> is_grammar_error e) (exceptions failed_call)"
    by simp
  from 1 2 3 4 5 6 7 8 show ?thesis by blast
qed

text \<open>
  C9 as stated fails: of a message with a NUL character the error carries only what
  precedes the NUL.
\<close>

theorem C9_message_cut_at_nul_counterexample:
  "snd (compile rejecting_with_nul \<lparr>rules = [(''a'', Some Blank)], ubiquitous_tokens = []\<rparr> ''g'') =
     Some (GrammarError [CHR ''a'', CHR 0x00, CHR ''b''])
   \<and> Compile rejecting_with_nul [grammar_without_ubiquitous] =
       Returned
         \<lparr>return_value = JsString [],
          exceptions = [JsError Error ''a'' [(''isGrammarError'', JsBoolean True)]],
          compiler_calls = [(\<lparr>rules = [(''a'', Some Blank)], ubiquitous_tokens = []\<rparr>, ''g'')]\<rparr>
   \<and> ''a'' \<noteq> [CHR ''a'', CHR 0x00, CHR ''b'']"
  by (simp add: rejecting_with_nul_def grammar_without_ubiquitous_def eval_simps)

section \<open>Termination\<close>


end
